theory Spec2Isabelle
  imports Complex_Main "HOL-Library.Sublist"
begin

section \<open>gh-upload-image: the core library (src/index.js)\<close>

text \<open>
  JavaScript strings are modelled as \<^typ>\<open>string\<close> (a list of 8-bit characters). The
  characters the code inspects (\<open>/\<close>, \<open>:\<close>, \<open>.\<close>, ASCII letters, digits and white space)
  are all ASCII, so the model reads the UTF-8 bytes of a string where the code reads its
  UTF-16 code units. Numbers that hold byte counts and repository ids are natural numbers
  or integers; they are exact as doubles below \<open>2 ^ 53\<close>.
\<close>

subsection \<open>Strings and numbers of the runtime\<close>

definition digit_char :: "nat \<Rightarrow> char" where
  "digit_char d = ''0123456789'' ! (d mod 10)"

text \<open>\<open>Number.prototype.toString\<close> on a non-negative integer: its decimal digits.\<close>

fun show_nat :: "nat \<Rightarrow> string" where
  "show_nat n = (if n < 10 then [digit_char n] else show_nat (n div 10) @ [digit_char (n mod 10)])"

declare show_nat.simps [simp del]

definition show_int :: "int \<Rightarrow> string" where
  "show_int i = (if i < 0 then CHR ''-'' # show_nat (nat (- i)) else show_nat (nat i))"

text \<open>\<open>String.prototype.toLowerCase\<close>, on the ASCII letters.\<close>

definition to_lower_char :: "char \<Rightarrow> char" where
  "to_lower_char c =
     (let n = (of_char c :: nat) in if 65 \<le> n \<and> n \<le> 90 then char_of (n + 32) else c)"

definition toLowerCase :: "string \<Rightarrow> string" where
  "toLowerCase s = map to_lower_char s"

definition is_space :: "char \<Rightarrow> bool" where
  "is_space c = (c \<in> set [CHR '' '', CHR 0x09, CHR 0x0A, CHR 0x0B, CHR 0x0C, CHR 0x0D])"

text \<open>\<open>String.prototype.trim\<close>: ASCII white space and line terminators go from both ends.\<close>

definition trim :: "string \<Rightarrow> string" where
  "trim s = rev (dropWhile is_space (rev (dropWhile is_space s)))"

text \<open>\<open>String.prototype.split\<close> with a one-character separator: the empty string splits
  into one empty segment, and empty segments are kept.\<close>

fun split_on :: "char \<Rightarrow> string \<Rightarrow> string list" where
  "split_on sep [] = [[]]"
| "split_on sep (c # cs) =
     (if c = sep then [] # split_on sep cs
      else (case split_on sep cs of
              [] \<Rightarrow> [[c]]
            | p # ps \<Rightarrow> (c # p) # ps))"

text \<open>\<open>Array.prototype.join\<close> on strings.\<close>

fun join :: "string \<Rightarrow> string list \<Rightarrow> string" where
  "join sep [] = []"
| "join sep [x] = x"
| "join sep (x # y # ys) = x @ sep @ join sep (y # ys)"

subsection \<open>node:path (POSIX flavour)\<close>

text \<open>
  The last component of a path: trailing separators are skipped, then everything after the
  last remaining separator is taken. This is \<open>path.basename\<close>, and the part of the path
  that \<open>path.extname\<close> looks at.
\<close>

definition basename :: "string \<Rightarrow> string" where
  "basename p =
     rev (takeWhile (\<lambda>c. c \<noteq> CHR ''/'') (dropWhile (\<lambda>c. c = CHR ''/'') (rev p)))"

text \<open>
  \<open>path.extname\<close>: from the last dot of the last component to its end; empty when the
  component has no dot, when its only dot is its first character, and for \<open>..\<close>.
\<close>

definition extname :: "string \<Rightarrow> string" where
  "extname p =
     (let c = basename p;
          ext = rev (takeWhile (\<lambda>x. x \<noteq> CHR ''.'') (rev c))
      in if CHR ''.'' \<notin> set c then []
         else if length ext + 1 = length c then []
         else if c = ''..'' then []
         else CHR ''.'' # ext)"

subsection \<open>Extension and MIME tables\<close>

definition ALLOWED_EXTENSIONS :: "string list" where
  "ALLOWED_EXTENSIONS =
     [''.gif'', ''.jpg'', ''.jpeg'', ''.png'', ''.docx'', ''.gz'', ''.log'', ''.pdf'',
      ''.pptx'', ''.txt'', ''.xlsx'', ''.zip'', ''.webp'', ''.svg'', ''.mp4'', ''.mov'']"

text \<open>
  The object literal \<open>MIME_TYPES\<close>, as its own properties. An extension is empty or starts
  with a dot, so a lookup never reaches a property inherited from \<open>Object.prototype\<close>.
\<close>

definition MIME_TYPES :: "(string \<times> string) list" where
  "MIME_TYPES =
     [(''.gif'', ''image/gif''),
      (''.jpg'', ''image/jpeg''),
      (''.jpeg'', ''image/jpeg''),
      (''.png'', ''image/png''),
      (''.webp'', ''image/webp''),
      (''.svg'', ''image/svg+xml''),
      (''.pdf'', ''application/pdf''),
      (''.docx'', ''application/vnd.openxmlformats-officedocument.wordprocessingml.document''),
      (''.pptx'', ''application/vnd.openxmlformats-officedocument.presentationml.presentation''),
      (''.xlsx'', ''application/vnd.openxmlformats-officedocument.spreadsheetml.sheet''),
      (''.txt'', ''text/plain''),
      (''.log'', ''text/plain''),
      (''.gz'', ''application/gzip''),
      (''.zip'', ''application/zip''),
      (''.mp4'', ''video/mp4''),
      (''.mov'', ''video/quicktime'')]"

definition getMimeType :: "string \<Rightarrow> string" where
  "getMimeType filePath =
     (let ext = toLowerCase (extname filePath)
      in case map_of MIME_TYPES ext of
           Some m \<Rightarrow> m
         | None \<Rightarrow> ''application/octet-stream'')"

definition isExtensionAllowed :: "string \<Rightarrow> bool" where
  "isExtensionAllowed filePath =
     (let ext = toLowerCase (extname filePath) in ext \<in> set ALLOWED_EXTENSIONS)"

subsection \<open>formatFileSize\<close>

text \<open>
  \<open>Number.prototype.toFixed(2)\<close> on a non-negative number: the integer \<open>n\<close> with
  \<open>n / 100\<close> nearest to the number (the larger one of two), written with two decimals.
\<close>

definition toFixed2 :: "real \<Rightarrow> string" where
  "toFixed2 x =
     (let n = nat \<lfloor>x * 100 + 1 / 2\<rfloor>
      in show_nat (n div 100) @ ''.'' @ [digit_char (n div 10 mod 10), digit_char (n mod 10)])"

definition units :: "string list" where
  "units = [''B'', ''KB'', ''MB'', ''GB'', ''TB'']"

text \<open>
  The byte count is a natural number, as \<open>fs.statSync(...).size\<close> gives it. The quotient of
  the two logarithms is the real one: the rounding of \<open>Math.log\<close> on doubles is not
  modelled. The division by a power of 1024 is exact on doubles.
\<close>

definition formatFileSize :: "nat \<Rightarrow> string" where
  "formatFileSize bytes =
     (if bytes = 0 then ''0 B''
      else
        let base = (1024 :: nat);
            unitIndex = min (nat \<lfloor>ln (real bytes) / ln (real base)\<rfloor>) (length units - 1);
            size = real bytes / real (base ^ unitIndex)
        in if unitIndex = 0 then show_nat bytes @ '' '' @ units ! unitIndex
           else toFixed2 size @ '' '' @ units ! unitIndex)"

text \<open>
  The words of the specification for one bucket: the quotient \<open>b / d\<close> rendered to two
  decimals, that is the nearest hundredth, in integer arithmetic.
\<close>

definition two_decimals :: "nat \<Rightarrow> nat \<Rightarrow> string" where
  "two_decimals b d =
     (let n = (200 * b + d) div (2 * d)
      in show_nat (n div 100) @ ''.'' @ show_nat (n div 10 mod 10) @ show_nat (n mod 10))"

subsection \<open>parseRepository\<close>

datatype error =
    MissingArgument string
  | FileNotFound string
  | UnsupportedExtension string
  | InvalidReference string
  | AuthenticationFailed string
  | RepositoryResolutionFailed string string string
  | PolicyRequestFailed nat string string
  | UploadFailed nat string string
  | RuntimeError string

record parsed_repository =
  owner :: string
  repo :: string

fun strip_prefix :: "string \<Rightarrow> string \<Rightarrow> string option" where
  "strip_prefix [] s = Some s"
| "strip_prefix (p # ps) [] = None"
| "strip_prefix (p # ps) (c # cs) = (if p = c then strip_prefix ps cs else None)"

text \<open>
  The regular expression \<open>/github\.com[/:]([^/]+)\/([^/.]+)/\<close> tried at the start of a
  string. Both groups are greedy. The first one must be followed by a slash, so it is the
  longest run of characters other than a slash; the second one is followed by nothing, so
  it is the longest run of characters other than a slash and a dot. Each must be non-empty.
\<close>

definition url_match_here :: "string \<Rightarrow> (string \<times> string) option" where
  "url_match_here s =
     (case strip_prefix ''github.com'' s of
        None \<Rightarrow> None
      | Some [] \<Rightarrow> None
      | Some (sep # r) \<Rightarrow>
          if sep = CHR ''/'' \<or> sep = CHR '':'' then
            (let g1 = takeWhile (\<lambda>c. c \<noteq> CHR ''/'') r;
                 rest = dropWhile (\<lambda>c. c \<noteq> CHR ''/'') r
             in if g1 = [] then None
                else (case rest of
                        [] \<Rightarrow> None
                      | slash # r2 \<Rightarrow>
                          (let g2 = takeWhile (\<lambda>c. c \<noteq> CHR ''/'' \<and> c \<noteq> CHR ''.'') r2
                           in if g2 = [] then None else Some (g1, g2))))
          else None)"

text \<open>\<open>String.prototype.match\<close> without the global flag: the leftmost position where
  the expression matches.\<close>

fun url_match :: "string \<Rightarrow> (string \<times> string) option" where
  "url_match [] = url_match_here []"
| "url_match (c # cs) =
     (case url_match_here (c # cs) of
        Some m \<Rightarrow> Some m
      | None \<Rightarrow> url_match cs)"

definition parseRepository :: "string \<Rightarrow> error + parsed_repository" where
  "parseRepository repository =
     (case url_match repository of
        Some (g1, g2) \<Rightarrow> Inr \<lparr>owner = g1, repo = g2\<rparr>
      | None \<Rightarrow>
          (let parts = split_on CHR ''/'' repository
           in if length parts = 2 then Inr \<lparr>owner = parts ! 0, repo = parts ! 1\<rparr>
              else Inl (InvalidReference repository)))"

text \<open>
  Whether the expression matches \<open>pre @ s\<close> at a position inside \<open>pre\<close>: used to say
  that a match is the leftmost one of a string.
\<close>

fun matches_before :: "string \<Rightarrow> string \<Rightarrow> bool" where
  "matches_before [] s = False"
| "matches_before (c # cs) s = (url_match_here (c # cs @ s) \<noteq> None \<or> matches_before cs s)"

subsection \<open>Values of the runtime: numbers and parsed JSON\<close>

text \<open>The result of \<open>parseInt\<close>: not a number, or an integer.\<close>

datatype js_number = NaN | Num int

definition is_digit :: "char \<Rightarrow> bool" where
  "is_digit c = (c \<in> set ''0123456789'')"

definition digit_value :: "char \<Rightarrow> nat" where
  "digit_value c = of_char c - 48"

definition digits_value :: "string \<Rightarrow> nat" where
  "digits_value ds = foldl (\<lambda>a c. a * 10 + digit_value c) 0 ds"

text \<open>
  \<open>parseInt(s, 10)\<close>: leading white space is skipped, a sign is read, and the longest run
  of decimal digits that follows is the value; with no digit there the result is \<open>NaN\<close>.
  What comes after the digits is ignored.
\<close>

definition parseInt10 :: "string \<Rightarrow> js_number" where
  "parseInt10 s =
     (let s1 = dropWhile is_space s;
          neg = (case s1 of [] \<Rightarrow> False | c # _ \<Rightarrow> c = CHR ''-'');
          s2 = (case s1 of [] \<Rightarrow> [] | c # r \<Rightarrow> if c = CHR ''-'' \<or> c = CHR ''+'' then r else s1);
          ds = takeWhile is_digit s2
      in if ds = [] then NaN
         else Num (if neg then - int (digits_value ds) else int (digits_value ds)))"

definition number_toString :: "js_number \<Rightarrow> string" where
  "number_toString x = (case x of NaN \<Rightarrow> ''NaN'' | Num i \<Rightarrow> show_int i)"

text \<open>
  What \<open>response.json()\<close> yields. An object lists its own properties in the order in
  which \<open>Object.entries\<close> enumerates them, each key once. Numbers are integers.
\<close>

datatype json =
    JNull
  | JBool bool
  | JNum int
  | JStr string
  | JArr "json list"
  | JObj "(string \<times> json) list"

text \<open>
  The conversion of a value to a string, as a template literal and \<open>FormData.append\<close>
  do it. In an array, \<open>null\<close> elements are joined as empty strings.
\<close>

fun js_string_of :: "json \<Rightarrow> string" where
  "js_string_of JNull = ''null''"
| "js_string_of (JBool b) = (if b then ''true'' else ''false'')"
| "js_string_of (JNum i) = show_int i"
| "js_string_of (JStr s) = s"
| "js_string_of (JArr xs) =
     join '','' (map (\<lambda>x. if x = JNull then [] else js_string_of x) xs)"
| "js_string_of (JObj kvs) = ''[object Object]''"

text \<open>A value that may be \<open>undefined\<close> is a \<^typ>\<open>json option\<close>; \<open>None\<close> is \<open>undefined\<close>.\<close>

definition template_string :: "json option \<Rightarrow> string" where
  "template_string v = (case v of None \<Rightarrow> ''undefined'' | Some j \<Rightarrow> js_string_of j)"

text \<open>
  Reading a property of a value: a \<open>TypeError\<close> on \<open>null\<close>, the property of an object, and
  \<open>undefined\<close> on any other value (the names read here, \<open>upload_url\<close>, \<open>asset\<close>, \<open>form\<close>
  and \<open>id\<close>, are no properties of strings, numbers, booleans or arrays).
\<close>

definition get_prop :: "json \<Rightarrow> string \<Rightarrow> error + json option" where
  "get_prop v k =
     (case v of
        JNull \<Rightarrow> Inl (RuntimeError ''TypeError: Cannot read properties of null'')
      | JObj kvs \<Rightarrow> Inr (map_of kvs k)
      | _ \<Rightarrow> Inr None)"

text \<open>\<open>Object.entries\<close>: a \<open>TypeError\<close> on \<open>undefined\<close> and \<open>null\<close>.\<close>

definition object_entries :: "json option \<Rightarrow> error + (string \<times> json) list" where
  "object_entries v =
     (case v of
        None \<Rightarrow> Inl (RuntimeError ''TypeError: Cannot convert undefined or null to object'')
      | Some JNull \<Rightarrow> Inl (RuntimeError ''TypeError: Cannot convert undefined or null to object'')
      | Some (JObj kvs) \<Rightarrow> Inr kvs
      | Some (JArr xs) \<Rightarrow> Inr (zip (map show_nat [0..<length xs]) xs)
      | Some (JStr s) \<Rightarrow> Inr (zip (map show_nat [0..<length s]) (map (\<lambda>c. JStr [c]) s))
      | Some _ \<Rightarrow> Inr [])"

subsection \<open>The world outside: files, processes, the network\<close>

text \<open>
  A path names a regular file with its bytes, another kind of node (a directory) with the
  size \<open>stat\<close> reports, or nothing.
\<close>

datatype fs_node = RegularFile string | OtherNode nat

text \<open>
  A spawned process either cannot be started (the \<open>error\<close> event) or closes with an exit
  code (\<open>null\<close> when a signal ended it), its standard output and its standard error.
\<close>

datatype proc_outcome = SpawnError string | Closed "int option" string string

record http_response =
  status :: nat
  statusText :: string
  text_body :: string
  json_body :: "json option"

text \<open>\<open>json_body\<close> is \<open>None\<close> when the body is not JSON and \<open>response.json()\<close> rejects.\<close>

datatype body_part =
    Field string string
  | FileField string string string string

datatype request_body =
    UrlEncodedBody "(string \<times> string) list"
  | MultipartBody "body_part list"

record http_request =
  req_url :: string
  req_method :: string
  req_headers :: "(string \<times> string) list"
  req_body :: request_body

text \<open>\<open>fetch\<close> rejects (no connection, a URL that does not parse) or resolves to a response.\<close>

datatype fetch_outcome = Rejected string | Response http_response

record world =
  fs :: "string \<Rightarrow> fs_node option"
  proc :: "string \<Rightarrow> string list \<Rightarrow> proc_outcome"
  net :: "http_request \<Rightarrow> fetch_outcome"

text \<open>
  The calls that leave the process, in the order in which they are made. A computation
  returns the calls it made and its result or the error it threw.
\<close>

datatype event = Spawn string "string list" | Fetch http_request

type_synonym 'a io = "event list \<times> (error + 'a)"

definition return_io :: "'a \<Rightarrow> 'a io" where
  "return_io x = ([], Inr x)"

definition pure_io :: "error + 'a \<Rightarrow> 'a io" where
  "pure_io r = ([], r)"

definition bind_io :: "'a io \<Rightarrow> ('a \<Rightarrow> 'b io) \<Rightarrow> 'b io" where
  "bind_io m f =
     (case m of
        (t, Inl e) \<Rightarrow> (t, Inl e)
      | (t, Inr x) \<Rightarrow> (case f x of (t', r) \<Rightarrow> (t @ t', r)))"

definition ok :: "http_response \<Rightarrow> bool" where
  "ok r = (200 \<le> status r \<and> status r \<le> 299)"

subsection \<open>Files\<close>

definition fileExists :: "world \<Rightarrow> string \<Rightarrow> bool" where
  "fileExists w filePath =
     (case fs w filePath of
        Some (RegularFile _) \<Rightarrow> True
      | _ \<Rightarrow> False)"

definition getFileSize :: "world \<Rightarrow> string \<Rightarrow> error + nat" where
  "getFileSize w filePath =
     (case fs w filePath of
        None \<Rightarrow> Inl (RuntimeError ''ENOENT'')
      | Some (RegularFile bytes) \<Rightarrow> Inr (length bytes)
      | Some (OtherNode n) \<Rightarrow> Inr n)"

definition readFileSync :: "world \<Rightarrow> string \<Rightarrow> error + string" where
  "readFileSync w filePath =
     (case fs w filePath of
        None \<Rightarrow> Inl (RuntimeError ''ENOENT'')
      | Some (RegularFile bytes) \<Rightarrow> Inr bytes
      | Some (OtherNode n) \<Rightarrow> Inl (RuntimeError ''EISDIR''))"

subsection \<open>The external tool\<close>

definition show_code :: "int option \<Rightarrow> string" where
  "show_code c = (case c of None \<Rightarrow> ''null'' | Some i \<Rightarrow> show_int i)"

text \<open>\<open>execCommand\<close> resolves to the trimmed output or rejects with a message.\<close>

definition execCommand :: "world \<Rightarrow> string \<Rightarrow> string list \<Rightarrow> event list \<times> (string + string)" where
  "execCommand w command args =
     ([Spawn command args],
      (case proc w command args of
         SpawnError m \<Rightarrow> Inl m
       | Closed code out err \<Rightarrow>
           if code = Some 0 then Inr (trim out)
           else Inl (if trim err \<noteq> [] then trim err
                     else ''Command failed with exit code '' @ show_code code)))"

definition getGitHubToken :: "world \<Rightarrow> string io" where
  "getGitHubToken w =
     (case execCommand w ''gh'' [''auth'', ''token''] of
        (t, Inl m) \<Rightarrow> (t, Inl (AuthenticationFailed m))
      | (t, Inr token) \<Rightarrow> (t, Inr token))"

definition getRepositoryId :: "world \<Rightarrow> string \<Rightarrow> string \<Rightarrow> js_number io" where
  "getRepositoryId w ow rp =
     (case execCommand w ''gh'' [''api'', ''repos/'' @ ow @ ''/'' @ rp, ''--jq'', ''.id''] of
        (t, Inl m) \<Rightarrow> (t, Inl (RepositoryResolutionFailed ow rp m))
      | (t, Inr result) \<Rightarrow> (t, Inr (parseInt10 result)))"

subsection \<open>Validation\<close>

text \<open>
  The two options may be missing (\<open>None\<close>). The checks are those of the source, in its
  order; when all pass, the two strings are handed on.
\<close>

definition validateUploadInput ::
  "world \<Rightarrow> string option \<Rightarrow> string option \<Rightarrow> error + (string \<times> string)" where
  "validateUploadInput w filePath repository =
     (case filePath of
        None \<Rightarrow> Inl (MissingArgument ''filePath is required in options'')
      | Some fp \<Rightarrow>
          if fp = [] then Inl (MissingArgument ''filePath is required in options'')
          else (case repository of
                  None \<Rightarrow> Inl (MissingArgument ''repository is required in options'')
                | Some rp \<Rightarrow>
                    if rp = [] then Inl (MissingArgument ''repository is required in options'')
                    else if \<not> fileExists w fp then Inl (FileNotFound fp)
                    else if \<not> isExtensionAllowed fp
                    then Inl (UnsupportedExtension (toLowerCase (extname fp)))
                    else Inr (fp, rp)))"

subsection \<open>The two requests\<close>

definition policy_request ::
  "string \<Rightarrow> js_number \<Rightarrow> string \<Rightarrow> nat \<Rightarrow> string \<Rightarrow> http_request" where
  "policy_request token repositoryId name sz mime =
     \<lparr>req_url = ''https://github.com/upload/policies/assets'',
      req_method = ''POST'',
      req_headers =
        [(''Accept'', ''application/json''),
         (''Content-Type'', ''application/x-www-form-urlencoded''),
         (''Authorization'', ''token '' @ token),
         (''User-Agent'', ''gh-upload-image/0.1.0'')],
      req_body = UrlEncodedBody
        [(''name'', name),
         (''size'', show_nat sz),
         (''content_type'', mime),
         (''repository_id'', number_toString repositoryId)]\<rparr>"

definition requestUploadPolicy ::
  "world \<Rightarrow> string \<Rightarrow> js_number \<Rightarrow> string \<Rightarrow> nat \<Rightarrow> string \<Rightarrow> json io" where
  "requestUploadPolicy w token repositoryId name sz mime =
     (let req = policy_request token repositoryId name sz mime
      in ([Fetch req],
          (case net w req of
             Rejected m \<Rightarrow> Inl (RuntimeError m)
           | Response response \<Rightarrow>
               if \<not> ok response
               then Inl (PolicyRequestFailed (status response) (statusText response)
                          (text_body response))
               else (case json_body response of
                       None \<Rightarrow> Inl (RuntimeError ''SyntaxError'')
                     | Some policy \<Rightarrow> Inr policy))))"

definition upload_request ::
  "json option \<Rightarrow> (string \<times> json) list \<Rightarrow> string \<Rightarrow> string \<Rightarrow> string \<Rightarrow> http_request" where
  "upload_request upload_url form fileBuffer name mime =
     \<lparr>req_url = template_string upload_url,
      req_method = ''POST'',
      req_headers = [],
      req_body = MultipartBody
        (map (\<lambda>(k, v). Field k (js_string_of v)) form @ [FileField ''file'' fileBuffer mime name])\<rparr>"

definition uploadFileToStorage ::
  "world \<Rightarrow> json \<Rightarrow> string \<Rightarrow> string \<Rightarrow> string \<Rightarrow> unit io" where
  "uploadFileToStorage w policy filePath name mime =
     bind_io (pure_io (readFileSync w filePath)) (\<lambda>fileBuffer.
     bind_io (pure_io (get_prop policy ''form'')) (\<lambda>form.
     bind_io (pure_io (object_entries form)) (\<lambda>entries.
     bind_io (pure_io (get_prop policy ''upload_url'')) (\<lambda>upload_url.
       (let req = upload_request upload_url entries fileBuffer name mime
        in ([Fetch req],
            (case net w req of
               Rejected m \<Rightarrow> Inl (RuntimeError m)
             | Response response \<Rightarrow>
                 (let isSuccess = (ok response \<or> status response = 201 \<or> status response = 204)
                  in if \<not> isSuccess
                     then Inl (UploadFailed (status response) (statusText response)
                                (text_body response))
                     else Inr ()))))))))"

subsection \<open>uploadImage\<close>

record options =
  opt_filePath :: "string option"
  opt_repository :: "string option"
  opt_verbose :: bool
  opt_dryMode :: bool

record upload_result =
  url :: string
  assetId :: "json option"
  fileName :: string
  fileSize :: nat
  mimeType :: string
  repository :: string
  dryMode :: bool

text \<open>\<open>policy.asset?.id\<close>: \<open>undefined\<close> when the policy has no asset or a \<open>null\<close> one.\<close>

definition asset_id :: "json \<Rightarrow> error + json option" where
  "asset_id policy =
     (case get_prop policy ''asset'' of
        Inl e \<Rightarrow> Inl e
      | Inr None \<Rightarrow> Inr None
      | Inr (Some asset) \<Rightarrow> if asset = JNull then Inr None else get_prop asset ''id'')"

text \<open>
  The orchestration. The messages of the debug logger are not part of the model; the two
  property reads made for them after the policy arrived are, since they can throw.
\<close>

definition uploadImage :: "world \<Rightarrow> options \<Rightarrow> upload_result io" where
  "uploadImage w opts =
     bind_io (pure_io (validateUploadInput w (opt_filePath opts) (opt_repository opts)))
       (\<lambda>(filePath, repository_ref).
     bind_io (pure_io (parseRepository repository_ref)) (\<lambda>parsed.
     bind_io (pure_io (getFileSize w filePath)) (\<lambda>sz.
       (let name = basename filePath;
            mime = getMimeType filePath;
            full = owner parsed @ ''/'' @ repo parsed
        in if opt_dryMode opts
           then return_io
             \<lparr>url = ''[DRY MODE] Would upload '' @ name @ '' to '' @ full,
              assetId = Some JNull,
              fileName = name,
              fileSize = sz,
              mimeType = mime,
              repository = full,
              dryMode = True\<rparr>
           else
             bind_io (getGitHubToken w) (\<lambda>token.
             bind_io (getRepositoryId w (owner parsed) (repo parsed)) (\<lambda>repositoryId.
             bind_io (requestUploadPolicy w token repositoryId name sz mime) (\<lambda>policy.
             bind_io (pure_io (get_prop policy ''upload_url'')) (\<lambda>logged_url.
             bind_io (pure_io (asset_id policy)) (\<lambda>logged_id.
             bind_io (uploadFileToStorage w policy filePath name mime) (\<lambda>uploaded.
             bind_io (pure_io (asset_id policy)) (\<lambda>aid.
               return_io
                 \<lparr>url = ''https://github.com/user-attachments/assets/'' @ template_string aid,
                  assetId = aid,
                  fileName = name,
                  fileSize = sz,
                  mimeType = mime,
                  repository = full,
                  dryMode = False\<rparr>)))))))))))"

subsection \<open>Scenarios\<close>

text \<open>
  A world with a ten-byte picture, a script and a directory, a credential tool that prints a token,
  and a given outcome for the resolver, the policy endpoint and the storage endpoint.
\<close>

definition scenario :: "proc_outcome \<Rightarrow> fetch_outcome \<Rightarrow> fetch_outcome \<Rightarrow> world" where
  "scenario resolver policy storage =
     \<lparr>fs = (\<lambda>p. if p = ''pic.png'' then Some (RegularFile ''0123456789'')
                else if p = ''script.js'' then Some (RegularFile ''1;'')
                else if p = ''docs'' then Some (OtherNode 4096) else None),
      proc = (\<lambda>command args.
                if args = [''auth'', ''token''] then Closed (Some 0) ''gho_token'' [] else resolver),
      net = (\<lambda>req. case req_body req of
                      UrlEncodedBody _ \<Rightarrow> policy
                    | MultipartBody _ \<Rightarrow> storage)\<rparr>"

definition upload_pic :: "bool \<Rightarrow> options" where
  "upload_pic dry =
     \<lparr>opt_filePath = Some ''pic.png'', opt_repository = Some ''o/r'',
      opt_verbose = False, opt_dryMode = dry\<rparr>"

definition respond :: "nat \<Rightarrow> string \<Rightarrow> json option \<Rightarrow> fetch_outcome" where
  "respond code reason j =
     Response \<lparr>status = code, statusText = reason, text_body = [], json_body = j\<rparr>"

definition policy_body :: "(string \<times> json) list \<Rightarrow> fetch_outcome" where
  "policy_body kvs = respond 200 ''OK'' (Some (JObj kvs))"

definition offline :: world where
  "offline = scenario (SpawnError ''unexpected call'') (Rejected ''unexpected call'')
     (Rejected ''unexpected call'')"

definition resolved_42 :: proc_outcome where
  "resolved_42 = Closed (Some 0) ''42\<newline>'' []"

section \<open>Properties\<close>

subsection \<open>Repository references\<close>

lemma strip_prefix_append: "strip_prefix p (p @ s) = Some s"
  by (induction p) simp_all

lemma url_match_here_None: "strip_prefix ''github.com'' s = None \<Longrightarrow> url_match_here s = None"
  by (simp add: url_match_here_def)

lemma url_match_skip: "\<not> matches_before pre s \<Longrightarrow> url_match (pre @ s) = url_match s"
  by (induction pre) (auto split: option.splits)

lemma url_match_append: "url_match s \<noteq> None \<Longrightarrow> url_match (pre @ s) \<noteq> None"
  by (induction pre) (auto split: option.splits)

lemma url_match_here_no_name:
  assumes ow: "CHR ''/'' \<notin> set ow"
    and nm: "nm = [] \<or> hd nm = CHR ''.'' \<or> hd nm = CHR ''/''"
  shows "url_match_here (''github.com'' @ sep # ow @ ''/'' @ nm) = None"
proof -
  have sp: "strip_prefix ''github.com'' (''github.com'' @ sep # ow @ ''/'' @ nm) = Some (sep # ow @ ''/'' @ nm)"
    by (rule strip_prefix_append)
  have dw: "dropWhile (\<lambda>c. c \<noteq> CHR ''/'') (ow @ ''/'' @ nm) = ''/'' @ nm"
    using ow by (subst dropWhile_append2) auto
  have g2: "takeWhile (\<lambda>c. c \<noteq> CHR ''/'' \<and> c \<noteq> CHR ''.'') nm = []"
    using nm by (cases nm) auto
  show ?thesis
    unfolding url_match_here_def sp using g2 dw by (simp add: Let_def)
qed

lemma url_match_here_shape:
  assumes sep: "sep = CHR ''/'' \<or> sep = CHR '':''"
    and ow: "ow \<noteq> []" "CHR ''/'' \<notin> set ow"
    and nm: "nm \<noteq> []" "hd nm \<noteq> CHR ''.''" "hd nm \<noteq> CHR ''/''"
  shows "url_match_here (''github.com'' @ sep # ow @ ''/'' @ nm)
         = Some (ow, takeWhile (\<lambda>c. c \<noteq> CHR ''/'' \<and> c \<noteq> CHR ''.'') nm)"
proof -
  have sp: "strip_prefix ''github.com'' (''github.com'' @ sep # ow @ ''/'' @ nm) = Some (sep # ow @ ''/'' @ nm)"
    by (rule strip_prefix_append)
  have tw: "takeWhile (\<lambda>c. c \<noteq> CHR ''/'') (ow @ ''/'' @ nm) = ow"
    using ow(2) by (subst takeWhile_append2) auto
  have dw: "dropWhile (\<lambda>c. c \<noteq> CHR ''/'') (ow @ ''/'' @ nm) = ''/'' @ nm"
    using ow(2) by (subst dropWhile_append2) auto
  have g2: "takeWhile (\<lambda>c. c \<noteq> CHR ''/'' \<and> c \<noteq> CHR ''.'') nm \<noteq> []"
    using nm by (cases nm) simp_all
  show ?thesis
    unfolding url_match_here_def sp using sep ow(1) g2 tw dw by (simp add: Let_def)
qed

lemma url_match_first:
  "url_match_here s = Some m \<Longrightarrow> url_match s = Some m"
  by (cases s) simp_all

lemma url_match_here_nodot:
  "url_match_here s = Some (a, b) \<Longrightarrow> CHR ''.'' \<notin> set b \<and> CHR ''/'' \<notin> set b \<and> b \<noteq> [] \<and> a \<noteq> [] \<and> CHR ''/'' \<notin> set a"
  by (auto simp: url_match_here_def Let_def split: option.splits list.splits if_splits dest: set_takeWhileD)

lemma url_match_nodot:
  "url_match s = Some (a, b) \<Longrightarrow> CHR ''.'' \<notin> set b \<and> CHR ''/'' \<notin> set b \<and> b \<noteq> [] \<and> a \<noteq> [] \<and> CHR ''/'' \<notin> set a"
proof (induction s)
  case Nil
  then show ?case using url_match_here_nodot by simp
next
  case (Cons c cs)
  then show ?case using url_match_here_nodot[of "c # cs" a b] by (auto split: option.splits)
qed

text \<open>
  C10 (amended). When \<open>github.com\<close> is followed in the input by \<open>/\<close> or \<open>:\<close>, a non-empty
  owner segment without a slash, a slash, and a name that starts with a character other
  than a dot and a slash, \<open>parseRepository\<close> takes the URL branch and the repository name it
  returns has no dot; when the expression matches at no earlier position, it returns that
  owner and the name cut at its first dot or slash: every dot suffix goes, not only
  \<open>.git\<close>. Where the name is empty or starts with a dot or a slash, the expression does
  not match at that occurrence and the search goes on behind it. Whenever the URL branch
  returns, the repository name has no dot.
\<close>

theorem C10_url_branch:
  "(s = pre @ ''github.com'' @ sep # ow @ ''/'' @ nm
     \<and> (sep = CHR ''/'' \<or> sep = CHR '':'') \<and> ow \<noteq> [] \<and> CHR ''/'' \<notin> set ow
     \<and> nm \<noteq> [] \<and> hd nm \<noteq> CHR ''.'' \<and> hd nm \<noteq> CHR ''/''
    \<longrightarrow> (\<exists>r. parseRepository s = Inr r \<and> CHR ''.'' \<notin> set (repo r))
      \<and> (\<not> matches_before pre (''github.com'' @ sep # ow @ ''/'' @ nm)
         \<longrightarrow> parseRepository s
             = Inr \<lparr>owner = ow, repo = takeWhile (\<lambda>c. c \<noteq> CHR ''/'' \<and> c \<noteq> CHR ''.'') nm\<rparr>))
   \<and> (s = pre @ ''github.com'' @ sep # ow @ ''/'' @ nm \<and> CHR ''/'' \<notin> set ow
     \<and> (nm = [] \<or> hd nm = CHR ''.'' \<or> hd nm = CHR ''/'')
    \<longrightarrow> url_match_here (''github.com'' @ sep # ow @ ''/'' @ nm) = None
      \<and> (\<not> matches_before pre (''github.com'' @ sep # ow @ ''/'' @ nm)
         \<longrightarrow> url_match s = url_match (''ithub.com'' @ sep # ow @ ''/'' @ nm)))
   \<and> (url_match s = Some (a, b) \<longrightarrow> parseRepository s = Inr \<lparr>owner = a, repo = b\<rparr> \<and> CHR ''.'' \<notin> set b)"
proof (intro conjI impI)
  assume h: "s = pre @ ''github.com'' @ sep # ow @ ''/'' @ nm
     \<and> (sep = CHR ''/'' \<or> sep = CHR '':'') \<and> ow \<noteq> [] \<and> CHR ''/'' \<notin> set ow
     \<and> nm \<noteq> [] \<and> hd nm \<noteq> CHR ''.'' \<and> hd nm \<noteq> CHR ''/''"
  let ?t = "''github.com'' @ sep # ow @ ''/'' @ nm"
  have here: "url_match_here ?t = Some (ow, takeWhile (\<lambda>c. c \<noteq> CHR ''/'' \<and> c \<noteq> CHR ''.'') nm)"
    using h by (intro url_match_here_shape) simp_all
  then have "url_match ?t \<noteq> None" using url_match_first by fastforce
  then have "url_match (pre @ ?t) \<noteq> None" by (rule url_match_append)
  then obtain x y where m: "url_match s = Some (x, y)" using h by auto
  then have "CHR ''.'' \<notin> set y" using url_match_nodot by blast
  with m show "\<exists>r. parseRepository s = Inr r \<and> CHR ''.'' \<notin> set (repo r)"
    by (simp add: parseRepository_def)
next
  assume h: "s = pre @ ''github.com'' @ sep # ow @ ''/'' @ nm
     \<and> (sep = CHR ''/'' \<or> sep = CHR '':'') \<and> ow \<noteq> [] \<and> CHR ''/'' \<notin> set ow
     \<and> nm \<noteq> [] \<and> hd nm \<noteq> CHR ''.'' \<and> hd nm \<noteq> CHR ''/''"
    and nb: "\<not> matches_before pre (''github.com'' @ sep # ow @ ''/'' @ nm)"
  let ?t = "''github.com'' @ sep # ow @ ''/'' @ nm"
  have "url_match s = url_match ?t"
    using h nb url_match_skip[of pre ?t] by simp
  also have "\<dots> = Some (ow, takeWhile (\<lambda>c. c \<noteq> CHR ''/'' \<and> c \<noteq> CHR ''.'') nm)"
    using h by (intro url_match_first url_match_here_shape) simp_all
  finally show "parseRepository s = Inr \<lparr>owner = ow, repo = takeWhile (\<lambda>c. c \<noteq> CHR ''/'' \<and> c \<noteq> CHR ''.'') nm\<rparr>"
    by (simp add: parseRepository_def)
next
  assume h: "s = pre @ ''github.com'' @ sep # ow @ ''/'' @ nm \<and> CHR ''/'' \<notin> set ow
     \<and> (nm = [] \<or> hd nm = CHR ''.'' \<or> hd nm = CHR ''/'')"
  then show "url_match_here (''github.com'' @ sep # ow @ ''/'' @ nm) = None"
    by (intro url_match_here_no_name) simp_all
next
  assume h: "s = pre @ ''github.com'' @ sep # ow @ ''/'' @ nm \<and> CHR ''/'' \<notin> set ow
     \<and> (nm = [] \<or> hd nm = CHR ''.'' \<or> hd nm = CHR ''/'')"
    and nb: "\<not> matches_before pre (''github.com'' @ sep # ow @ ''/'' @ nm)"
  let ?t = "''github.com'' @ sep # ow @ ''/'' @ nm"
  have none: "url_match_here ?t = None"
    using h by (intro url_match_here_no_name) simp_all
  have "url_match s = url_match ?t"
    using h nb url_match_skip[of pre ?t] by simp
  also have "\<dots> = url_match (''ithub.com'' @ sep # ow @ ''/'' @ nm)"
    using none by simp
  finally show "url_match s = url_match (''ithub.com'' @ sep # ow @ ''/'' @ nm)" .
next
  assume "url_match s = Some (a, b)"
  then show "parseRepository s = Inr \<lparr>owner = a, repo = b\<rparr>" by (simp add: parseRepository_def)
next
  assume "url_match s = Some (a, b)"
  then show "CHR ''.'' \<notin> set b" using url_match_nodot by blast
qed

text \<open>
  The example of C10, \<open>repo.backup\<close> cut to \<open>repo\<close>; a reference behind an occurrence of
  \<open>github.com\<close> that does not match; and a name that starts with a dot.
\<close>

theorem C10_url_branch_witness:
  "url_match ''https://github.com/owner/repo.backup'' = Some (''owner'', ''repo'')
   \<and> parseRepository ''https://github.com/owner/repo.backup'' = Inr \<lparr>owner = ''owner'', repo = ''repo''\<rparr>
   \<and> CHR ''.'' \<notin> set ''repo''
   \<and> parseRepository ''github.com github.com/o/r.git'' = Inr \<lparr>owner = ''o'', repo = ''r''\<rparr>
   \<and> url_match_here ''github.com/owner/.github'' = None
   \<and> url_match ''https://github.com/owner/.github'' = url_match ''ithub.com/owner/.github''"
proof -
  have m: "url_match ''https://github.com/owner/repo.backup'' = Some (''owner'', ''repo'')"
    by (simp add: url_match_here_def)
  have n1: "\<not> matches_before ''https://'' (''github.com'' @ CHR ''/'' # ''owner'' @ ''/'' @ ''repo.backup'')"
    by (simp add: url_match_here_def)
  have n2: "\<not> matches_before ''github.com '' (''github.com'' @ CHR ''/'' # ''o'' @ ''/'' @ ''r.git'')"
    by (simp add: url_match_here_def)
  have n3: "\<not> matches_before ''https://'' (''github.com'' @ CHR ''/'' # ''owner'' @ ''/'' @ ''.github'')"
    by (simp add: url_match_here_def)
  have r1: "parseRepository ''https://github.com/owner/repo.backup''
      = Inr \<lparr>owner = ''owner'', repo = ''repo''\<rparr> \<and> CHR ''.'' \<notin> set ''repo''"
    using m n1 C10_url_branch [of "''https://github.com/owner/repo.backup''" "''https://''" "CHR ''/''"
        "''owner''" "''repo.backup''" "''owner''" "''repo''"]
    by simp
  have r2: "parseRepository ''github.com github.com/o/r.git'' = Inr \<lparr>owner = ''o'', repo = ''r''\<rparr>"
    using n2 C10_url_branch [of "''github.com github.com/o/r.git''" "''github.com ''" "CHR ''/''"
        "''o''" "''r.git''" "''o''" "''r''"]
    by simp
  have r3: "url_match_here ''github.com/owner/.github'' = None
      \<and> url_match ''https://github.com/owner/.github'' = url_match ''ithub.com/owner/.github''"
    using n3 C10_url_branch [of "''https://github.com/owner/.github''" "''https://''" "CHR ''/''"
        "''owner''" "''.github''" "''owner''" "''repo''"]
    by simp
  from m r1 r2 r3 show ?thesis by blast
qed

text \<open>
  C10 as stated fails for a name that starts with a dot: the second group of the
  expression needs one character that is not a dot, nothing matches, and the five segments
  of the fallback are rejected.
\<close>

theorem C10_counterexample:
  "parseRepository ''https://github.com/owner/.github'' = Inl (InvalidReference ''https://github.com/owner/.github'')"
  by (simp add: parseRepository_def url_match_here_def)

text \<open>
  C7. The four accepted forms of a reference give owner \<open>owner\<close> and repository
  \<open>repo\<close>; \<open>invalid\<close>, the empty string and \<open>a/b/c\<close> are invalid references.
\<close>

theorem C7_examples:
  "parseRepository ''owner/repo'' = Inr \<lparr>owner = ''owner'', repo = ''repo''\<rparr>
   \<and> parseRepository ''https://github.com/owner/repo'' = Inr \<lparr>owner = ''owner'', repo = ''repo''\<rparr>
   \<and> parseRepository ''https://github.com/owner/repo.git'' = Inr \<lparr>owner = ''owner'', repo = ''repo''\<rparr>
   \<and> parseRepository ''git@github.com:owner/repo.git'' = Inr \<lparr>owner = ''owner'', repo = ''repo''\<rparr>
   \<and> parseRepository ''invalid'' = Inl (InvalidReference ''invalid'')
   \<and> parseRepository '''' = Inl (InvalidReference '''')
   \<and> parseRepository ''a/b/c'' = Inl (InvalidReference ''a/b/c'')"
  by (simp add: parseRepository_def url_match_here_def)

lemma split_on_nonempty: "split_on sep s \<noteq> []"
  by (induction s) (auto split: list.splits)

lemma length_split_on: "length (split_on sep s) = count_list s sep + 1"
  by (induction s) (auto split: list.splits simp: split_on_nonempty)

lemma hd_split_on: "hd (split_on sep s) = takeWhile (\<lambda>c. c \<noteq> sep) s"
  by (induction s) (auto split: list.splits simp: split_on_nonempty)

lemma split_on_Cons_other:
  "c \<noteq> sep \<Longrightarrow> split_on sep (c # cs) = (c # hd (split_on sep cs)) # tl (split_on sep cs)"
  by (cases "split_on sep cs") (simp_all add: split_on_nonempty)

lemma tl_split_on: "tl (split_on sep s) = (case dropWhile (\<lambda>c. c \<noteq> sep) s of [] \<Rightarrow> [] | _ # r \<Rightarrow> split_on sep r)"
proof (induction s)
  case Nil
  show ?case by simp
next
  case (Cons c cs)
  show ?case
  proof (cases "c = sep")
    case True
    then show ?thesis by simp
  next
    case False
    then show ?thesis using Cons by (simp only: split_on_Cons_other list.sel dropWhile.simps if_True simp_thms)
  qed
qed

lemma split_on_no_sep: "sep \<notin> set s \<Longrightarrow> split_on sep s = [s]"
  by (induction s) (auto split: list.splits)

lemma dropWhile_sep:
  assumes "sep \<in> set s"
  obtains r where "dropWhile (\<lambda>c. c \<noteq> sep) s = sep # r"
proof (cases "dropWhile (\<lambda>c. c \<noteq> sep) s")
  case Nil
  then have "\<forall>x\<in>set s. x \<noteq> sep" by (simp only: dropWhile_eq_Nil_conv)
  with assms show ?thesis by blast
next
  case (Cons a r)
  then have "\<not> (hd (dropWhile (\<lambda>c. c \<noteq> sep) s) \<noteq> sep)"
    using hd_dropWhile[of "\<lambda>c. c \<noteq> sep" s] by simp
  with Cons have "a = sep" by simp
  with Cons that show ?thesis by simp
qed

lemma split_on_two:
  assumes "count_list s sep = 1"
  shows "split_on sep s = [takeWhile (\<lambda>c. c \<noteq> sep) s, tl (dropWhile (\<lambda>c. c \<noteq> sep) s)]"
proof -
  have "sep \<in> set s" using assms count_list_0_iff[of s sep] by auto
  then obtain r where dw: "dropWhile (\<lambda>c. c \<noteq> sep) s = sep # r"
    by (rule dropWhile_sep)
  have "takeWhile (\<lambda>c. c \<noteq> sep) s @ dropWhile (\<lambda>c. c \<noteq> sep) s = s"
    by (rule takeWhile_dropWhile_id)
  then have "count_list s sep = count_list (takeWhile (\<lambda>c. c \<noteq> sep) s @ sep # r) sep"
    using dw by simp
  then have "count_list r sep = 0" using assms by simp
  then have r: "sep \<notin> set r" by (simp add: count_list_0_iff)
  have "split_on sep s = hd (split_on sep s) # tl (split_on sep s)"
    using split_on_nonempty[of sep s] by simp
  then show ?thesis
    using dw r by (simp add: hd_split_on tl_split_on split_on_no_sep)
qed

text \<open>
  C6 (amended). When the URL pattern does not match, \<open>parseRepository\<close> succeeds exactly
  when the input has one slash, that is when it splits into two segments; the segments
  are returned as they are, empty or not. Any other number of segments is an invalid
  reference.
\<close>

theorem C6_fallback:
  assumes "url_match s = None"
  shows "parseRepository s =
    (if count_list s CHR ''/'' = 1
     then Inr \<lparr>owner = takeWhile (\<lambda>c. c \<noteq> CHR ''/'') s, repo = tl (dropWhile (\<lambda>c. c \<noteq> CHR ''/'') s)\<rparr>
     else Inl (InvalidReference s))"
  using assms by (simp add: parseRepository_def length_split_on split_on_two)

text \<open>
  The fallback at \<open>/b\<close>: one slash, an empty owner.
\<close>

theorem C6_fallback_witness:
  "url_match ''/b'' = None \<and> parseRepository ''/b'' = Inr \<lparr>owner = '''', repo = ''b''\<rparr>"
proof -
  have h: "url_match ''/b'' = None" by (simp add: url_match_here_def)
  show ?thesis using h C6_fallback [OF h] by simp
qed

text \<open>
  C6 as stated fails at \<open>a/\<close>: the pattern does not match, the split has an empty
  segment, and the reference is accepted with an empty repository name.
\<close>

theorem C6_counterexample:
  "url_match ''a/'' = None \<and> split_on CHR ''/'' ''a/'' = [''a'', ''''] \<and> parseRepository ''a/'' = Inr \<lparr>owner = ''a'', repo = ''''\<rparr>"
  by (simp add: parseRepository_def url_match_here_def)

subsection \<open>File sizes\<close>

lemma unitIndex_exact:
  assumes "1024 ^ k \<le> b" "b < 1024 ^ (k + 1)"
  shows "nat \<lfloor>ln (real b) / ln (real (1024::nat))\<rfloor> = k"
proof -
  have "\<lfloor>log (real (1024::nat)) (real b)\<rfloor> = int k"
    using assms by (intro floor_log_nat_eq_if) simp_all
  then show ?thesis by (simp add: log_def)
qed

lemma toFixed2_quotient:
  assumes "0 < d"
  shows "nat \<lfloor>real b / real d * 100 + 1 / 2\<rfloor> = (200 * b + d) div (2 * d)"
proof -
  have "real b / real d * 100 + 1 / 2 = real (200 * b + d) / real (2 * d)"
    using assms by (simp add: field_simps)
  then have "\<lfloor>real b / real d * 100 + 1 / 2\<rfloor> = \<lfloor>real (200 * b + d) / real (2 * d)\<rfloor>"
    by simp
  also have "\<dots> = int ((200 * b + d) div (2 * d))"
    by (rule floor_divide_of_nat_eq)
  finally show ?thesis by simp
qed

lemma show_nat_digit: "n < 10 \<Longrightarrow> show_nat n = [digit_char n]"
  by (simp add: show_nat.simps)

lemma toFixed2_two_decimals:
  assumes "0 < d"
  shows "toFixed2 (real b / real d) = two_decimals b d"
  unfolding toFixed2_def two_decimals_def Let_def toFixed2_quotient [OF assms]
  by (simp add: show_nat_digit)

lemma formatFileSize_bucket:
  assumes "0 < k" "k \<le> 4" "1024 ^ k \<le> b" "b < 1024 ^ (k + 1)"
  shows "formatFileSize b = two_decimals b (1024 ^ k) @ '' '' @ units ! k"
proof -
  have b: "b \<noteq> 0" using assms(3) by (cases b) simp_all
  have ui: "nat \<lfloor>ln (real b) / ln (real (1024::nat))\<rfloor> = k"
    using assms by (intro unitIndex_exact)
  have m: "min k (length units - 1) = k" using assms(2) by (simp add: units_def)
  have "toFixed2 (real b / real ((1024::nat) ^ k)) = two_decimals b (1024 ^ k)"
    by (rule toFixed2_two_decimals) simp
  then show ?thesis
    using b assms(1) unfolding formatFileSize_def Let_def ui m by simp
qed

text \<open>
  C9. Zero bytes are \<open>0 B\<close>; below 1024 the byte count is printed as it is; in the KB,
  MB and GB buckets the count divided by the power of 1024 is printed with two
  decimals.
\<close>

theorem C9_formatFileSize:
  "formatFileSize 0 = ''0 B''
   \<and> (0 < b \<and> b < 1024 \<longrightarrow> formatFileSize b = show_nat b @ '' B'')
   \<and> (1024 \<le> b \<and> b < 1024 ^ 2 \<longrightarrow> formatFileSize b = two_decimals b 1024 @ '' KB'')
   \<and> (1024 ^ 2 \<le> b \<and> b < 1024 ^ 3 \<longrightarrow> formatFileSize b = two_decimals b (1024 ^ 2) @ '' MB'')
   \<and> (1024 ^ 3 \<le> b \<and> b < 1024 ^ 4 \<longrightarrow> formatFileSize b = two_decimals b (1024 ^ 3) @ '' GB'')"
proof (intro conjI impI)
  show "formatFileSize 0 = ''0 B''" by (simp add: formatFileSize_def)
next
  assume h: "0 < b \<and> b < 1024"
  have "nat \<lfloor>ln (real b) / ln (real (1024::nat))\<rfloor> = 0"
    using h by (intro unitIndex_exact) simp_all
  then show "formatFileSize b = show_nat b @ '' B''"
    using h unfolding formatFileSize_def Let_def by (simp add: units_def)
next
  assume "1024 \<le> b \<and> b < 1024 ^ 2"
  then show "formatFileSize b = two_decimals b 1024 @ '' KB''"
    using formatFileSize_bucket [of 1 b] by (simp add: units_def)
next
  assume "1024 ^ 2 \<le> b \<and> b < 1024 ^ 3"
  then show "formatFileSize b = two_decimals b (1024 ^ 2) @ '' MB''"
    using formatFileSize_bucket [of 2 b] by (simp add: units_def)
next
  assume "1024 ^ 3 \<le> b \<and> b < 1024 ^ 4"
  then show "formatFileSize b = two_decimals b (1024 ^ 3) @ '' GB''"
    using formatFileSize_bucket [of 3 b] by (simp add: units_def)
qed

text \<open>
  The byte counts of the test suite, one in each bucket.
\<close>

theorem C9_formatFileSize_witness:
  "formatFileSize 500 = ''500 B'' \<and> formatFileSize 2048 = ''2.00 KB''
   \<and> formatFileSize 5767168 = ''5.50 MB'' \<and> formatFileSize 1073741824 = ''1.00 GB''"
  using C9_formatFileSize [of 500] C9_formatFileSize [of 2048]
    C9_formatFileSize [of 5767168] C9_formatFileSize [of 1073741824]
  by (simp add: two_decimals_def show_nat.simps digit_char_def)

subsection \<open>Extensions and MIME types\<close>

lemma map_of_MIME_TYPES_None:
  "e \<notin> set ALLOWED_EXTENSIONS \<Longrightarrow> map_of MIME_TYPES e = None"
  by (simp add: ALLOWED_EXTENSIONS_def MIME_TYPES_def)

text \<open>
  C8. A file whose lower-cased extension is one of the sixteen allowed ones is allowed
  and has the MIME type of the table; any other file is not allowed and has the generic
  binary type. Both verdicts depend on the extension only through its lower-cased
  form.
\<close>

theorem C8_extension_table:
  "(\<forall>(e, m) \<in> set
      [(''.gif'', ''image/gif''), (''.jpg'', ''image/jpeg''), (''.jpeg'', ''image/jpeg''),
       (''.png'', ''image/png''), (''.webp'', ''image/webp''), (''.svg'', ''image/svg+xml''),
       (''.mp4'', ''video/mp4''), (''.mov'', ''video/quicktime''), (''.pdf'', ''application/pdf''),
       (''.docx'', ''application/vnd.openxmlformats-officedocument.wordprocessingml.document''),
       (''.pptx'', ''application/vnd.openxmlformats-officedocument.presentationml.presentation''),
       (''.xlsx'', ''application/vnd.openxmlformats-officedocument.spreadsheetml.sheet''),
       (''.txt'', ''text/plain''), (''.log'', ''text/plain''), (''.zip'', ''application/zip''),
       (''.gz'', ''application/gzip'')].
      toLowerCase (extname f) = e \<longrightarrow> isExtensionAllowed f \<and> getMimeType f = m)
   \<and> (toLowerCase (extname f) \<notin> set
        [''.gif'', ''.jpg'', ''.jpeg'', ''.png'', ''.webp'', ''.svg'', ''.mp4'', ''.mov'', ''.pdf'',
         ''.docx'', ''.pptx'', ''.xlsx'', ''.txt'', ''.log'', ''.zip'', ''.gz'']
      \<longrightarrow> \<not> isExtensionAllowed f \<and> getMimeType f = ''application/octet-stream'')
   \<and> (toLowerCase (extname f) = toLowerCase (extname g)
      \<longrightarrow> isExtensionAllowed f = isExtensionAllowed g \<and> getMimeType f = getMimeType g)"
proof (intro conjI)
  show "\<forall>(e, m) \<in> set
      [(''.gif'', ''image/gif''), (''.jpg'', ''image/jpeg''), (''.jpeg'', ''image/jpeg''),
       (''.png'', ''image/png''), (''.webp'', ''image/webp''), (''.svg'', ''image/svg+xml''),
       (''.mp4'', ''video/mp4''), (''.mov'', ''video/quicktime''), (''.pdf'', ''application/pdf''),
       (''.docx'', ''application/vnd.openxmlformats-officedocument.wordprocessingml.document''),
       (''.pptx'', ''application/vnd.openxmlformats-officedocument.presentationml.presentation''),
       (''.xlsx'', ''application/vnd.openxmlformats-officedocument.spreadsheetml.sheet''),
       (''.txt'', ''text/plain''), (''.log'', ''text/plain''), (''.zip'', ''application/zip''),
       (''.gz'', ''application/gzip'')].
      toLowerCase (extname f) = e \<longrightarrow> isExtensionAllowed f \<and> getMimeType f = m"
    by (simp add: isExtensionAllowed_def getMimeType_def ALLOWED_EXTENSIONS_def MIME_TYPES_def)
next
  show "toLowerCase (extname f) \<notin> set
        [''.gif'', ''.jpg'', ''.jpeg'', ''.png'', ''.webp'', ''.svg'', ''.mp4'', ''.mov'', ''.pdf'',
         ''.docx'', ''.pptx'', ''.xlsx'', ''.txt'', ''.log'', ''.zip'', ''.gz'']
      \<longrightarrow> \<not> isExtensionAllowed f \<and> getMimeType f = ''application/octet-stream''"
  proof
    assume h: "toLowerCase (extname f) \<notin> set
        [''.gif'', ''.jpg'', ''.jpeg'', ''.png'', ''.webp'', ''.svg'', ''.mp4'', ''.mov'', ''.pdf'',
         ''.docx'', ''.pptx'', ''.xlsx'', ''.txt'', ''.log'', ''.zip'', ''.gz'']"
    then have na: "toLowerCase (extname f) \<notin> set ALLOWED_EXTENSIONS"
      by (simp add: ALLOWED_EXTENSIONS_def)
    then show "\<not> isExtensionAllowed f \<and> getMimeType f = ''application/octet-stream''"
      by (simp add: isExtensionAllowed_def getMimeType_def map_of_MIME_TYPES_None)
  qed
next
  show "toLowerCase (extname f) = toLowerCase (extname g)
      \<longrightarrow> isExtensionAllowed f = isExtensionAllowed g \<and> getMimeType f = getMimeType g"
    by (simp add: isExtensionAllowed_def getMimeType_def)
qed

text \<open>
  An upper-case extension, a mixed-case one and a rejected one.
\<close>

theorem C8_extension_table_witness:
  "isExtensionAllowed ''image.PNG'' \<and> getMimeType ''image.PNG'' = ''image/png''
   \<and> \<not> isExtensionAllowed ''file.exe'' \<and> getMimeType ''file.exe'' = ''application/octet-stream''
   \<and> isExtensionAllowed ''photo.JpG'' = isExtensionAllowed ''photo.jpg''"
proof -
  have png: "toLowerCase (extname ''image.PNG'') = ''.png''" by code_simp
  have exe: "toLowerCase (extname ''file.exe'') = ''.exe''" by code_simp
  have jpg: "toLowerCase (extname ''photo.JpG'') = toLowerCase (extname ''photo.jpg'')" by code_simp
  show ?thesis
    using C8_extension_table [of "''image.PNG''" "''image.PNG''"]
      C8_extension_table [of "''file.exe''" "''file.exe''"]
      C8_extension_table [of "''photo.JpG''" "''photo.jpg''"] png exe jpg
    by simp
qed

subsection \<open>The orchestration\<close>

lemma bind_io_pure_Inl [simp]: "bind_io (pure_io (Inl e)) f = ([], Inl e)"
  by (simp add: bind_io_def pure_io_def)

lemma bind_io_pure_Inr [simp]: "bind_io (pure_io (Inr x)) f = f x"
  by (simp add: bind_io_def pure_io_def split: prod.splits)

lemma fst_bind_io:
  "fst (bind_io m f) = fst m @ (case snd m of Inl e \<Rightarrow> [] | Inr x \<Rightarrow> fst (f x))"
  by (cases m) (auto simp: bind_io_def split: sum.splits prod.splits)

lemma snd_bind_io:
  "snd (bind_io m f) = (case snd m of Inl e \<Rightarrow> Inl e | Inr x \<Rightarrow> snd (f x))"
  by (cases m) (auto simp: bind_io_def split: sum.splits prod.splits)

lemma validate_Inr:
  assumes "validateUploadInput w a b = Inr (fp, rp)"
  shows "a = Some fp \<and> b = Some rp \<and> fp \<noteq> [] \<and> rp \<noteq> [] \<and> fileExists w fp \<and> isExtensionAllowed fp"
  using assms by (auto simp: validateUploadInput_def split: option.splits if_splits)

lemma fileExists_iff: "fileExists w p \<longleftrightarrow> (\<exists>bytes. fs w p = Some (RegularFile bytes))"
  by (auto simp: fileExists_def split: option.splits fs_node.splits)

lemma fst_getGitHubToken: "fst (getGitHubToken w) = [Spawn ''gh'' [''auth'', ''token'']]"
  by (simp add: getGitHubToken_def execCommand_def split: sum.splits)

lemma fst_getRepositoryId:
  "fst (getRepositoryId w a b) = [Spawn ''gh'' [''api'', ''repos/'' @ a @ ''/'' @ b, ''--jq'', ''.id'']]"
  by (simp add: getRepositoryId_def execCommand_def split: sum.splits)

lemma snd_getRepositoryId:
  "snd (getRepositoryId w a b) =
     (case proc w ''gh'' [''api'', ''repos/'' @ a @ ''/'' @ b, ''--jq'', ''.id''] of
        SpawnError m \<Rightarrow> Inl (RepositoryResolutionFailed a b m)
      | Closed code out err \<Rightarrow>
          if code = Some 0 then Inr (parseInt10 (trim out))
          else Inl (RepositoryResolutionFailed a b
                 (if trim err \<noteq> [] then trim err
                  else ''Command failed with exit code '' @ show_code code)))"
  by (simp add: getRepositoryId_def execCommand_def split: proc_outcome.splits)

lemma fst_requestUploadPolicy:
  "fst (requestUploadPolicy w t r n s m) = [Fetch (policy_request t r n s m)]"
  by (simp add: requestUploadPolicy_def Let_def)

lemma snd_requestUploadPolicy:
  "snd (requestUploadPolicy w t r n s m) =
     (case net w (policy_request t r n s m) of
        Rejected msg \<Rightarrow> Inl (RuntimeError msg)
      | Response response \<Rightarrow>
          if \<not> ok response
          then Inl (PolicyRequestFailed (status response) (statusText response) (text_body response))
          else (case json_body response of
                  None \<Rightarrow> Inl (RuntimeError ''SyntaxError'')
                | Some policy \<Rightarrow> Inr policy))"
  by (simp add: requestUploadPolicy_def Let_def)

lemma get_prop_error: "get_prop v k = Inl e \<Longrightarrow> \<exists>m. e = RuntimeError m"
  by (auto simp: get_prop_def split: json.splits)

lemma asset_id_error: "asset_id v = Inl e \<Longrightarrow> \<exists>m. e = RuntimeError m"
  by (auto simp: asset_id_def split: sum.splits option.splits if_splits dest: get_prop_error)

lemma object_entries_error: "object_entries v = Inl e \<Longrightarrow> \<exists>m. e = RuntimeError m"
  by (auto simp: object_entries_def split: option.splits json.splits)

lemma readFileSync_error: "readFileSync w p = Inl e \<Longrightarrow> \<exists>m. e = RuntimeError m"
  by (auto simp: readFileSync_def split: option.splits fs_node.splits)

lemma fst_uploadFileToStorage:
  "ev \<in> set (fst (uploadFileToStorage w policy fp n m)) \<Longrightarrow>
     \<exists>req parts. ev = Fetch req \<and> req_headers req = [] \<and> req_body req = MultipartBody parts"
  by (auto simp: uploadFileToStorage_def fst_bind_io pure_io_def upload_request_def Let_def
      split: sum.splits)

lemma snd_uploadFileToStorage_error:
  "snd (uploadFileToStorage w policy fp n m) = Inl e \<Longrightarrow>
     (\<exists>msg. e = RuntimeError msg) \<or> (\<exists>c t b. e = UploadFailed c t b)"
  by (auto simp: uploadFileToStorage_def snd_bind_io pure_io_def Let_def
      split: sum.splits fetch_outcome.splits if_splits
      dest: get_prop_error object_entries_error readFileSync_error)

lemma policy_request_not_multipart:
  "req_body (policy_request t r n s m) \<noteq> MultipartBody parts"
  by (simp add: policy_request_def)

lemma uploadImage_online:
  assumes v: "validateUploadInput w (opt_filePath opts) (opt_repository opts) = Inr (fp, rp)"
    and p: "parseRepository rp = Inr parsed"
    and f: "fs w fp = Some (RegularFile bytes)"
    and nd: "\<not> opt_dryMode opts"
  shows "uploadImage w opts =
     bind_io (getGitHubToken w) (\<lambda>token.
     bind_io (getRepositoryId w (owner parsed) (repo parsed)) (\<lambda>repositoryId.
     bind_io (requestUploadPolicy w token repositoryId (basename fp) (length bytes) (getMimeType fp))
       (\<lambda>policy.
     bind_io (pure_io (get_prop policy ''upload_url'')) (\<lambda>logged_url.
     bind_io (pure_io (asset_id policy)) (\<lambda>logged_id.
     bind_io (uploadFileToStorage w policy fp (basename fp) (getMimeType fp)) (\<lambda>uploaded.
     bind_io (pure_io (asset_id policy)) (\<lambda>aid.
       return_io
         \<lparr>url = ''https://github.com/user-attachments/assets/'' @ template_string aid,
          assetId = aid,
          fileName = basename fp,
          fileSize = length bytes,
          mimeType = getMimeType fp,
          repository = owner parsed @ ''/'' @ repo parsed,
          dryMode = False\<rparr>)))))))"
  using v p f nd by (simp add: uploadImage_def getFileSize_def Let_def)

text \<open>The ways in which a run ends before the first call.\<close>

lemma uploadImage_cases:
  obtains (invalid) e where "validateUploadInput w (opt_filePath opts) (opt_repository opts) = Inl e"
      "uploadImage w opts = ([], Inl e)"
  | (reference) fp rp where "validateUploadInput w (opt_filePath opts) (opt_repository opts) = Inr (fp, rp)"
      "parseRepository rp = Inl (InvalidReference rp)" "uploadImage w opts = ([], Inl (InvalidReference rp))"
  | (dry) fp rp parsed bytes where
      "validateUploadInput w (opt_filePath opts) (opt_repository opts) = Inr (fp, rp)"
      "parseRepository rp = Inr parsed" "fs w fp = Some (RegularFile bytes)" "opt_dryMode opts"
      "uploadImage w opts = ([], Inr
              \<lparr>url = ''[DRY MODE] Would upload '' @ basename fp @ '' to ''
                       @ owner parsed @ ''/'' @ repo parsed,
               assetId = Some JNull,
               fileName = basename fp,
               fileSize = length bytes,
               mimeType = getMimeType fp,
               repository = owner parsed @ ''/'' @ repo parsed,
               dryMode = True\<rparr>)"
  | (online) fp rp parsed bytes where
      "validateUploadInput w (opt_filePath opts) (opt_repository opts) = Inr (fp, rp)"
      "parseRepository rp = Inr parsed" "fs w fp = Some (RegularFile bytes)" "\<not> opt_dryMode opts"
proof (cases "validateUploadInput w (opt_filePath opts) (opt_repository opts)")
  case (Inl e)
  then show ?thesis using invalid by (simp add: uploadImage_def)
next
  case (Inr pr)
  obtain fp rp where pr: "pr = (fp, rp)" by (cases pr)
  with Inr have v: "validateUploadInput w (opt_filePath opts) (opt_repository opts) = Inr (fp, rp)"
    by simp
  then obtain bytes where f: "fs w fp = Some (RegularFile bytes)"
    using validate_Inr fileExists_iff by blast
  show ?thesis
  proof (cases "parseRepository rp")
    case (Inl e)
    then have "e = InvalidReference rp"
      by (auto simp: parseRepository_def Let_def split: option.splits if_splits)
    with Inl v show ?thesis using reference by (simp add: uploadImage_def)
  next
    case p: (Inr parsed)
    show ?thesis
    proof (cases "opt_dryMode opts")
      case True
      with v p f show ?thesis using dry
        by (simp add: uploadImage_def getFileSize_def Let_def return_io_def)
    next
      case False
      with v p f show ?thesis using online by blast
    qed
  qed
qed


lemma digit_char_cases:
  "d < 10 \<Longrightarrow> d = 0 \<or> d = 1 \<or> d = 2 \<or> d = 3 \<or> d = 4 \<or> d = 5 \<or> d = 6 \<or> d = 7 \<or> d = 8 \<or> d = (9::nat)"
  by arith

lemma digit_char_props:
  assumes "d < 10"
  shows "is_digit (digit_char d) \<and> digit_value (digit_char d) = d \<and> \<not> is_space (digit_char d)
         \<and> digit_char d \<noteq> CHR ''-'' \<and> digit_char d \<noteq> CHR ''+''"
  using digit_char_cases [OF assms]
  by (elim disjE) (simp_all add: digit_char_def is_digit_def digit_value_def is_space_def)

lemma show_nat_digits: "show_nat n \<noteq> [] \<and> (\<forall>c \<in> set (show_nat n). is_digit c)"
proof (induction n rule: show_nat.induct)
  case (1 n)
  show ?case
  proof (cases "n < 10")
    case True
    then show ?thesis using digit_char_props [of n] by (simp add: show_nat.simps [of n])
  next
    case False
    then show ?thesis
      using 1 digit_char_props [of "n mod 10"] by (simp add: show_nat.simps [of n])
  qed
qed

lemma digits_value_snoc: "digits_value (ds @ [c]) = digits_value ds * 10 + digit_value c"
  by (simp add: digits_value_def)

lemma digits_value_show_nat: "digits_value (show_nat n) = n"
proof (induction n rule: show_nat.induct)
  case (1 n)
  show ?case
  proof (cases "n < 10")
    case True
    then show ?thesis
      using digit_char_props [of n] by (simp add: show_nat.simps [of n] digits_value_def)
  next
    case False
    then have "digits_value (show_nat n) = digits_value (show_nat (n div 10)) * 10 + digit_value (digit_char (n mod 10))"
      by (simp add: show_nat.simps [of n] digits_value_snoc)
    also have "\<dots> = (n div 10) * 10 + n mod 10"
      using 1 False digit_char_props [of "n mod 10"] by simp
    finally show ?thesis by simp
  qed
qed

lemma hd_show_nat: "\<exists>d ds. show_nat n = digit_char d # ds \<and> d < 10"
proof (induction n rule: show_nat.induct)
  case (1 n)
  show ?case
  proof (cases "n < 10")
    case True
    then show ?thesis by (auto simp: show_nat.simps [of n])
  next
    case False
    then obtain d ds where "show_nat (n div 10) = digit_char d # ds" "d < 10" using 1 by blast
    then show ?thesis using False by (auto simp: show_nat.simps [of n])
  qed
qed

lemma parseInt10_show_nat: "parseInt10 (show_nat n) = Num (int n)"
proof -
  obtain d ds where s: "show_nat n = digit_char d # ds" and d: "d < 10"
    using hd_show_nat by blast
  have all: "\<forall>c \<in> set (show_nat n). is_digit c" using show_nat_digits by blast
  have ne: "show_nat n \<noteq> []" using show_nat_digits by blast
  have tw: "takeWhile is_digit (show_nat n) = show_nat n"
    using all by (simp add: takeWhile_eq_all_conv)
  have dw: "dropWhile is_space (show_nat n) = show_nat n"
    using s digit_char_props [OF d] by simp
  have neg: "(case show_nat n of [] \<Rightarrow> False | c # _ \<Rightarrow> c = CHR ''-'') = False"
    using s digit_char_props [OF d] by simp
  have s2: "(case show_nat n of [] \<Rightarrow> []
             | c # r \<Rightarrow> if c = CHR ''-'' \<or> c = CHR ''+'' then r else show_nat n) = show_nat n"
    using s digit_char_props [OF d] by simp
  show ?thesis
    unfolding parseInt10_def Let_def dw neg s2 tw using ne by (simp add: digits_value_show_nat)
qed

lemma number_toString_nat: "number_toString (Num (int n)) = show_nat n"
  by (simp add: number_toString_def show_int_def)

lemma bind_io_events:
  assumes "\<And>ev. ev \<in> set (fst m) \<Longrightarrow> P ev" and "\<And>x ev. ev \<in> set (fst (f x)) \<Longrightarrow> P ev"
  shows "ev \<in> set (fst (bind_io m f)) \<Longrightarrow> P ev"
  using assms by (auto simp: fst_bind_io split: sum.splits)

lemma after_resolution_events:
  assumes "ev \<in> set (fst (
     bind_io (requestUploadPolicy w token rid n sz mt) (\<lambda>policy.
     bind_io (pure_io (get_prop policy ''upload_url'')) (\<lambda>logged_url.
     bind_io (pure_io (asset_id policy)) (\<lambda>logged_id.
     bind_io (uploadFileToStorage w policy fp n mt) (\<lambda>uploaded.
     bind_io (pure_io (asset_id policy)) (\<lambda>aid. return_io (res aid))))))))"
  shows "\<exists>req. ev = Fetch req"
  using assms
  by (auto simp: fst_bind_io fst_requestUploadPolicy pure_io_def return_io_def
      split: sum.splits dest: fst_uploadFileToStorage)

text \<open>
  C3 (amended). For every call of the resolver that a run makes: when the process cannot
  be spawned or closes with a code other than zero, the run fails with
  \<open>RepositoryResolutionFailed\<close>; when it closes with code zero and its trimmed output is
  the decimal numeral of \<open>n\<close>, the policy request is sent with \<open>repository_id\<close> equal to
  that numeral.
\<close>

theorem C3_resolver:
  "Spawn ''gh'' (''api'' # args) \<in> set (fst (uploadImage w opts)) \<longrightarrow>
     (\<forall>m. proc w ''gh'' (''api'' # args) = SpawnError m \<longrightarrow>
        (\<exists>a b msg. snd (uploadImage w opts) = Inl (RepositoryResolutionFailed a b msg)))
     \<and> (\<forall>code out err. proc w ''gh'' (''api'' # args) = Closed code out err \<and> code \<noteq> Some 0 \<longrightarrow>
        (\<exists>a b msg. snd (uploadImage w opts) = Inl (RepositoryResolutionFailed a b msg)))
     \<and> (\<forall>out err n. proc w ''gh'' (''api'' # args) = Closed (Some 0) out err \<and> trim out = show_nat n
          \<and> n < 2 ^ 53 \<longrightarrow>
        (\<exists>req flds. Fetch req \<in> set (fst (uploadImage w opts))
           \<and> req_url req = ''https://github.com/upload/policies/assets''
           \<and> req_body req = UrlEncodedBody flds
           \<and> map_of flds ''repository_id'' = Some (show_nat n)))"
proof
  assume ev: "Spawn ''gh'' (''api'' # args) \<in> set (fst (uploadImage w opts))"
  show "(\<forall>m. proc w ''gh'' (''api'' # args) = SpawnError m \<longrightarrow>
        (\<exists>a b msg. snd (uploadImage w opts) = Inl (RepositoryResolutionFailed a b msg)))
     \<and> (\<forall>code out err. proc w ''gh'' (''api'' # args) = Closed code out err \<and> code \<noteq> Some 0 \<longrightarrow>
        (\<exists>a b msg. snd (uploadImage w opts) = Inl (RepositoryResolutionFailed a b msg)))
     \<and> (\<forall>out err n. proc w ''gh'' (''api'' # args) = Closed (Some 0) out err \<and> trim out = show_nat n
          \<and> n < 2 ^ 53 \<longrightarrow>
        (\<exists>req flds. Fetch req \<in> set (fst (uploadImage w opts))
           \<and> req_url req = ''https://github.com/upload/policies/assets''
           \<and> req_body req = UrlEncodedBody flds
           \<and> map_of flds ''repository_id'' = Some (show_nat n)))"
  proof (cases w opts rule: uploadImage_cases)
    case (invalid e)
    with ev show ?thesis by simp
  next
    case (reference fp rp)
    with ev show ?thesis by simp
  next
    case (dry fp rp parsed bytes)
    with ev show ?thesis by simp
  next
    case (online fp rp parsed bytes)
    note u = uploadImage_online [OF online]
    let ?args = "[''repos/'' @ owner parsed @ ''/'' @ repo parsed, ''--jq'', ''.id'']"
    define rest where "rest = (\<lambda>token rid.
     bind_io (requestUploadPolicy w token rid (basename fp) (length bytes) (getMimeType fp))
       (\<lambda>policy.
     bind_io (pure_io (get_prop policy ''upload_url'')) (\<lambda>logged_url.
     bind_io (pure_io (asset_id policy)) (\<lambda>logged_id.
     bind_io (uploadFileToStorage w policy fp (basename fp) (getMimeType fp)) (\<lambda>uploaded.
     bind_io (pure_io (asset_id policy)) (\<lambda>aid.
       return_io
         \<lparr>url = ''https://github.com/user-attachments/assets/'' @ template_string aid,
          assetId = aid,
          fileName = basename fp,
          fileSize = length bytes,
          mimeType = getMimeType fp,
          repository = owner parsed @ ''/'' @ repo parsed,
          dryMode = False\<rparr>))))))"
    have u': "uploadImage w opts =
        bind_io (getGitHubToken w) (\<lambda>token.
        bind_io (getRepositoryId w (owner parsed) (repo parsed)) (\<lambda>rid. rest token rid))"
      unfolding rest_def by (rule u)
    have rest_events: "\<And>token rid ev. ev \<in> set (fst (rest token rid)) \<Longrightarrow> \<exists>req. ev = Fetch req"
      unfolding rest_def by (rule after_resolution_events)
    have rest_fetch: "\<And>token rid. Fetch (policy_request token rid (basename fp) (length bytes) (getMimeType fp))
        \<in> set (fst (rest token rid))"
      unfolding rest_def by (simp add: fst_bind_io fst_requestUploadPolicy)
    obtain token where tok: "snd (getGitHubToken w) = Inr token"
    proof (cases "snd (getGitHubToken w)")
      case (Inl e)
      with ev show ?thesis unfolding u' by (simp add: fst_bind_io fst_getGitHubToken)
    next
      case (Inr t)
      then show ?thesis using that by blast
    qed
    have args: "args = ?args"
      using ev tok rest_events unfolding u'
      by (auto simp: fst_bind_io fst_getGitHubToken fst_getRepositoryId split: sum.splits)
    have s: "snd (uploadImage w opts) =
        (case snd (getRepositoryId w (owner parsed) (repo parsed)) of
           Inl e \<Rightarrow> Inl e
         | Inr rid \<Rightarrow> snd (rest token rid))"
      unfolding u' using tok by (simp add: snd_bind_io)
    have t: "fst (uploadImage w opts) =
        Spawn ''gh'' [''auth'', ''token''] # Spawn ''gh'' (''api'' # ?args) #
        (case snd (getRepositoryId w (owner parsed) (repo parsed)) of
           Inl e \<Rightarrow> []
         | Inr rid \<Rightarrow> fst (rest token rid))"
      unfolding u' using tok by (simp add: fst_bind_io fst_getGitHubToken fst_getRepositoryId)
    have a: "\<forall>m. proc w ''gh'' (''api'' # args) = SpawnError m \<longrightarrow>
        (\<exists>a b msg. snd (uploadImage w opts) = Inl (RepositoryResolutionFailed a b msg))"
      unfolding s args by (simp add: snd_getRepositoryId)
    have b: "\<forall>code out err. proc w ''gh'' (''api'' # args) = Closed code out err \<and> code \<noteq> Some 0 \<longrightarrow>
        (\<exists>a b msg. snd (uploadImage w opts) = Inl (RepositoryResolutionFailed a b msg))"
      unfolding s args by (simp add: snd_getRepositoryId)
    have c: "\<forall>out err n. proc w ''gh'' (''api'' # args) = Closed (Some 0) out err \<and> trim out = show_nat n
          \<and> n < 2 ^ 53 \<longrightarrow>
        (\<exists>req flds. Fetch req \<in> set (fst (uploadImage w opts))
           \<and> req_url req = ''https://github.com/upload/policies/assets''
           \<and> req_body req = UrlEncodedBody flds
           \<and> map_of flds ''repository_id'' = Some (show_nat n))"
    proof (intro allI impI)
      fix out err n
      assume h: "proc w ''gh'' (''api'' # args) = Closed (Some 0) out err \<and> trim out = show_nat n
          \<and> n < 2 ^ 53"
      then have rid: "snd (getRepositoryId w (owner parsed) (repo parsed)) = Inr (Num (int n))"
        unfolding args by (simp add: snd_getRepositoryId parseInt10_show_nat)
      let ?req = "policy_request token (Num (int n)) (basename fp) (length bytes) (getMimeType fp)"
      have "Fetch ?req \<in> set (fst (uploadImage w opts))"
        unfolding t using rid rest_fetch by simp
      moreover have "req_url ?req = ''https://github.com/upload/policies/assets''"
        by (simp add: policy_request_def)
      moreover have "req_body ?req = UrlEncodedBody
        [(''name'', basename fp), (''size'', show_nat (length bytes)),
         (''content_type'', getMimeType fp), (''repository_id'', show_nat n)]"
        by (simp add: policy_request_def number_toString_nat)
      moreover have "map_of [(''name'', basename fp), (''size'', show_nat (length bytes)),
         (''content_type'', getMimeType fp), (''repository_id'', show_nat n)] ''repository_id''
         = Some (show_nat n)"
        by simp
      ultimately show "\<exists>req flds. Fetch req \<in> set (fst (uploadImage w opts))
           \<and> req_url req = ''https://github.com/upload/policies/assets''
           \<and> req_body req = UrlEncodedBody flds
           \<and> map_of flds ''repository_id'' = Some (show_nat n)"
        by blast
    qed
    from a b c show ?thesis by blast
  qed
qed

lemma after_resolution_events_strong:
  assumes "ev \<in> set (fst (
     bind_io (requestUploadPolicy w token rid n sz mt) (\<lambda>policy.
     bind_io (pure_io (get_prop policy ''upload_url'')) (\<lambda>logged_url.
     bind_io (pure_io (asset_id policy)) (\<lambda>logged_id.
     bind_io (uploadFileToStorage w policy fp n mt) (\<lambda>uploaded.
     bind_io (pure_io (asset_id policy)) (\<lambda>aid. return_io (res aid))))))))"
  shows "ev = Fetch (policy_request token rid n sz mt)
         \<or> (\<exists>req parts. ev = Fetch req \<and> req_body req = MultipartBody parts)"
  using assms
  by (auto simp: fst_bind_io fst_requestUploadPolicy pure_io_def return_io_def
      split: sum.splits dest: fst_uploadFileToStorage)

lemma uploadFileToStorage_accepts:
  assumes f: "fs w fp = Some (RegularFile bytes)"
    and u: "map_of kvs ''upload_url'' = Some (JStr target)"
    and fm: "map_of kvs ''form'' = Some (JObj form)"
    and acc: "\<forall>parts. \<exists>resp'. net w \<lparr>req_url = target, req_method = ''POST'', req_headers = [],
                 req_body = MultipartBody parts\<rparr> = Response resp' \<and> ok resp'"
  shows "snd (uploadFileToStorage w (JObj kvs) fp n mt) = Inr ()"
proof -
  let ?parts = "map (\<lambda>(k, v). Field k (js_string_of v)) form @ [FileField ''file'' bytes mt n]"
  obtain resp' where r: "net w \<lparr>req_url = target, req_method = ''POST'', req_headers = [],
                 req_body = MultipartBody ?parts\<rparr> = Response resp'" "ok resp'"
    using acc by blast
  show ?thesis
    using f u fm r
    by (simp add: uploadFileToStorage_def readFileSync_def get_prop_def object_entries_def
        upload_request_def template_string_def Let_def)
qed

text \<open>
  C2 (amended). For every response of the policy endpoint: a status outside 200..299
  makes the run fail with \<open>PolicyRequestFailed\<close>, carrying status, status text and body;
  a status inside never does. A 2xx policy with an upload url and form fields in which
  \<open>asset?.id\<close> reads nothing (no asset, a \<open>null\<close> asset, an asset without id), sent to a
  storage endpoint that accepts the upload, gives a result without asset id.
\<close>

theorem C2_policy_response:
  "Fetch req \<in> set (fst (uploadImage w opts)) \<and> req_body req = UrlEncodedBody flds
     \<and> net w req = Response resp \<longrightarrow>
     (\<not> ok resp \<longrightarrow> snd (uploadImage w opts)
         = Inl (PolicyRequestFailed (status resp) (statusText resp) (text_body resp)))
     \<and> (ok resp \<longrightarrow> (\<forall>c t m. snd (uploadImage w opts) \<noteq> Inl (PolicyRequestFailed c t m)))
     \<and> (ok resp \<and> json_body resp = Some (JObj kvs)
          \<and> map_of kvs ''upload_url'' = Some (JStr target)
          \<and> map_of kvs ''form'' = Some (JObj form)
          \<and> asset_id (JObj kvs) = Inr None
          \<and> (\<forall>parts. \<exists>resp'. net w \<lparr>req_url = target, req_method = ''POST'', req_headers = [],
                 req_body = MultipartBody parts\<rparr> = Response resp' \<and> ok resp')
        \<longrightarrow> (\<exists>r. snd (uploadImage w opts) = Inr r \<and> assetId r = None \<and> \<not> dryMode r))"
proof
  assume h: "Fetch req \<in> set (fst (uploadImage w opts)) \<and> req_body req = UrlEncodedBody flds
     \<and> net w req = Response resp"
  then have ev: "Fetch req \<in> set (fst (uploadImage w opts))" by blast
  show "(\<not> ok resp \<longrightarrow> snd (uploadImage w opts)
         = Inl (PolicyRequestFailed (status resp) (statusText resp) (text_body resp)))
     \<and> (ok resp \<longrightarrow> (\<forall>c t m. snd (uploadImage w opts) \<noteq> Inl (PolicyRequestFailed c t m)))
     \<and> (ok resp \<and> json_body resp = Some (JObj kvs)
          \<and> map_of kvs ''upload_url'' = Some (JStr target)
          \<and> map_of kvs ''form'' = Some (JObj form)
          \<and> asset_id (JObj kvs) = Inr None
          \<and> (\<forall>parts. \<exists>resp'. net w \<lparr>req_url = target, req_method = ''POST'', req_headers = [],
                 req_body = MultipartBody parts\<rparr> = Response resp' \<and> ok resp')
        \<longrightarrow> (\<exists>r. snd (uploadImage w opts) = Inr r \<and> assetId r = None \<and> \<not> dryMode r))"
  proof (cases w opts rule: uploadImage_cases)
    case (invalid e)
    with ev show ?thesis by simp
  next
    case (reference fp rp)
    with ev show ?thesis by simp
  next
    case (dry fp rp parsed bytes)
    with ev show ?thesis by simp
  next
    case (online fp rp parsed bytes)
    note u = uploadImage_online [OF online]
    define result where "result = (\<lambda>aid.
         \<lparr>url = ''https://github.com/user-attachments/assets/'' @ template_string aid,
          assetId = aid,
          fileName = basename fp,
          fileSize = length bytes,
          mimeType = getMimeType fp,
          repository = owner parsed @ ''/'' @ repo parsed,
          dryMode = False\<rparr>)"
    define after where "after = (\<lambda>policy.
     bind_io (pure_io (get_prop policy ''upload_url'')) (\<lambda>logged_url.
     bind_io (pure_io (asset_id policy)) (\<lambda>logged_id.
     bind_io (uploadFileToStorage w policy fp (basename fp) (getMimeType fp)) (\<lambda>uploaded.
     bind_io (pure_io (asset_id policy)) (\<lambda>aid. return_io (result aid))))))"
    define rest where "rest = (\<lambda>token rid.
     bind_io (requestUploadPolicy w token rid (basename fp) (length bytes) (getMimeType fp)) after)"
    have u': "uploadImage w opts =
        bind_io (getGitHubToken w) (\<lambda>token.
        bind_io (getRepositoryId w (owner parsed) (repo parsed)) (\<lambda>rid. rest token rid))"
      unfolding rest_def after_def result_def by (rule u)
    have rest_events: "\<And>token rid ev. ev \<in> set (fst (rest token rid)) \<Longrightarrow>
        ev = Fetch (policy_request token rid (basename fp) (length bytes) (getMimeType fp))
         \<or> (\<exists>req parts. ev = Fetch req \<and> req_body req = MultipartBody parts)"
      unfolding rest_def after_def by (rule after_resolution_events_strong)
    obtain token where tok: "snd (getGitHubToken w) = Inr token"
    proof (cases "snd (getGitHubToken w)")
      case (Inl e)
      with ev show ?thesis unfolding u' by (simp add: fst_bind_io fst_getGitHubToken)
    next
      case (Inr t)
      then show ?thesis using that by blast
    qed
    obtain rid where rid: "snd (getRepositoryId w (owner parsed) (repo parsed)) = Inr rid"
    proof (cases "snd (getRepositoryId w (owner parsed) (repo parsed))")
      case (Inl e)
      with ev tok show ?thesis unfolding u'
        by (simp add: fst_bind_io fst_getGitHubToken fst_getRepositoryId)
    next
      case (Inr t)
      then show ?thesis using that by blast
    qed
    let ?preq = "policy_request token rid (basename fp) (length bytes) (getMimeType fp)"
    have "Fetch req \<in> set (fst (rest token rid))"
      using ev tok rid unfolding u'
      by (simp add: fst_bind_io fst_getGitHubToken fst_getRepositoryId)
    then have req: "req = ?preq"
      using rest_events h by fastforce
    have s: "snd (uploadImage w opts) = snd (rest token rid)"
      unfolding u' using tok rid by (simp add: snd_bind_io)
    have net: "net w ?preq = Response resp" using h req by simp
    have a: "\<not> ok resp \<longrightarrow> snd (uploadImage w opts)
         = Inl (PolicyRequestFailed (status resp) (statusText resp) (text_body resp))"
      unfolding s rest_def using net by (simp add: snd_bind_io snd_requestUploadPolicy)
    have b: "ok resp \<longrightarrow> (\<forall>c t m. snd (uploadImage w opts) \<noteq> Inl (PolicyRequestFailed c t m))"
    proof (intro impI allI)
      fix c t m
      assume okr: "ok resp"
      show "snd (uploadImage w opts) \<noteq> Inl (PolicyRequestFailed c t m)"
      proof (cases "json_body resp")
        case None
        then show ?thesis
          unfolding s rest_def using net okr by (simp add: snd_bind_io snd_requestUploadPolicy)
      next
        case (Some policy)
        then have "snd (uploadImage w opts) = snd (after policy)"
          unfolding s rest_def using net okr by (simp add: snd_bind_io snd_requestUploadPolicy)
        moreover have "snd (after policy) \<noteq> Inl (PolicyRequestFailed c t m)"
          unfolding after_def
          by (auto simp: snd_bind_io pure_io_def return_io_def split: sum.splits
              dest: get_prop_error asset_id_error snd_uploadFileToStorage_error)
        ultimately show ?thesis by simp
      qed
    qed
    have c: "ok resp \<and> json_body resp = Some (JObj kvs)
          \<and> map_of kvs ''upload_url'' = Some (JStr target)
          \<and> map_of kvs ''form'' = Some (JObj form)
          \<and> asset_id (JObj kvs) = Inr None
          \<and> (\<forall>parts. \<exists>resp'. net w \<lparr>req_url = target, req_method = ''POST'', req_headers = [],
                 req_body = MultipartBody parts\<rparr> = Response resp' \<and> ok resp')
        \<longrightarrow> (\<exists>r. snd (uploadImage w opts) = Inr r \<and> assetId r = None \<and> \<not> dryMode r)"
    proof
      assume k: "ok resp \<and> json_body resp = Some (JObj kvs)
          \<and> map_of kvs ''upload_url'' = Some (JStr target)
          \<and> map_of kvs ''form'' = Some (JObj form)
          \<and> asset_id (JObj kvs) = Inr None
          \<and> (\<forall>parts. \<exists>resp'. net w \<lparr>req_url = target, req_method = ''POST'', req_headers = [],
                 req_body = MultipartBody parts\<rparr> = Response resp' \<and> ok resp')"
      then have st: "snd (uploadFileToStorage w (JObj kvs) fp (basename fp) (getMimeType fp)) = Inr ()"
        using uploadFileToStorage_accepts [OF online(3)] by blast
      have "snd (uploadImage w opts) = snd (after (JObj kvs))"
        unfolding s rest_def using net k by (simp add: snd_bind_io snd_requestUploadPolicy)
      also have "\<dots> = Inr (result None)"
        unfolding after_def using k st
        by (simp add: snd_bind_io pure_io_def return_io_def get_prop_def)
      finally show "\<exists>r. snd (uploadImage w opts) = Inr r \<and> assetId r = None \<and> \<not> dryMode r"
        by (simp add: result_def)
    qed
    from a b c show ?thesis by blast
  qed
qed

subsection \<open>Runs in the scenarios\<close>

lemma scenario_validate:
  "validateUploadInput (scenario rs po st) (opt_filePath (upload_pic dry))
     (opt_repository (upload_pic dry)) = Inr (''pic.png'', ''o/r'')"
  by (simp add: validateUploadInput_def fileExists_def scenario_def upload_pic_def
      isExtensionAllowed_def extname_def basename_def toLowerCase_def to_lower_char_def
      ALLOWED_EXTENSIONS_def)

lemma scenario_parse: "parseRepository ''o/r'' = Inr \<lparr>owner = ''o'', repo = ''r''\<rparr>"
  by (simp add: parseRepository_def url_match_here_def)

lemma scenario_file: "fs (scenario rs po st) ''pic.png'' = Some (RegularFile ''0123456789'')"
  by (simp add: scenario_def)

lemma scenario_mime: "getMimeType ''pic.png'' = ''image/png''"
  by (simp add: getMimeType_def extname_def basename_def toLowerCase_def to_lower_char_def
      MIME_TYPES_def)

lemma scenario_basename: "basename ''pic.png'' = ''pic.png''"
  by (simp add: basename_def)

lemma scenario_token:
  "getGitHubToken (scenario rs po st) = ([Spawn ''gh'' [''auth'', ''token'']], Inr ''gho_token'')"
  by (simp add: getGitHubToken_def execCommand_def scenario_def trim_def is_space_def)

lemma scenario_resolver:
  "getRepositoryId (scenario rs po st) ''o'' ''r'' =
     ([Spawn ''gh'' [''api'', ''repos/o/r'', ''--jq'', ''.id'']],
      (case rs of
        SpawnError m \<Rightarrow> Inl (RepositoryResolutionFailed ''o'' ''r'' m)
      | Closed code out err \<Rightarrow>
          if code = Some 0 then Inr (parseInt10 (trim out))
          else Inl (RepositoryResolutionFailed ''o'' ''r''
                 (if trim err \<noteq> [] then trim err
                  else ''Command failed with exit code '' @ show_code code))))"
  by (simp add: getRepositoryId_def execCommand_def scenario_def split: proc_outcome.splits)

lemma scenario_policy:
  "requestUploadPolicy (scenario rs (Response r) st) token rid n sz mt =
     ([Fetch (policy_request token rid n sz mt)],
      if ok r
      then (case json_body r of None \<Rightarrow> Inl (RuntimeError ''SyntaxError'') | Some policy \<Rightarrow> Inr policy)
      else Inl (PolicyRequestFailed (status r) (statusText r) (text_body r)))"
  by (simp add: requestUploadPolicy_def scenario_def policy_request_def Let_def)

lemma scenario_online:
  "uploadImage (scenario rs po st) (upload_pic False) =
     bind_io (getGitHubToken (scenario rs po st)) (\<lambda>token.
     bind_io (getRepositoryId (scenario rs po st) ''o'' ''r'') (\<lambda>repositoryId.
     bind_io (requestUploadPolicy (scenario rs po st) token repositoryId ''pic.png'' 10 ''image/png'')
       (\<lambda>policy.
     bind_io (pure_io (get_prop policy ''upload_url'')) (\<lambda>logged_url.
     bind_io (pure_io (asset_id policy)) (\<lambda>logged_id.
     bind_io (uploadFileToStorage (scenario rs po st) policy ''pic.png'' ''pic.png'' ''image/png'')
       (\<lambda>uploaded.
     bind_io (pure_io (asset_id policy)) (\<lambda>aid.
       return_io
         \<lparr>url = ''https://github.com/user-attachments/assets/'' @ template_string aid,
          assetId = aid,
          fileName = ''pic.png'',
          fileSize = 10,
          mimeType = ''image/png'',
          repository = ''o/r'',
          dryMode = False\<rparr>)))))))"
proof -
  have len: "length ''0123456789'' = 10" by simp
  have nd: "\<not> opt_dryMode (upload_pic False)" by (simp add: upload_pic_def)
  show ?thesis
    using uploadImage_online [OF scenario_validate [of rs po st False] scenario_parse scenario_file nd]
    unfolding scenario_basename scenario_mime len by simp
qed

lemma bind_io_Inl [simp]: "bind_io (t, Inl e) f = (t, Inl e)"
  by (simp add: bind_io_def)

lemma bind_io_Inr [simp]: "bind_io (t, Inr x) f = (t @ fst (f x), snd (f x))"
  by (simp add: bind_io_def split: prod.splits)

lemma parse_42: "parseInt10 (trim ''42\<newline>'') = Num 42"
  by (simp add: parseInt10_def trim_def is_space_def is_digit_def digits_value_def digit_value_def)

lemma parse_nan: "parseInt10 (trim ''not-a-number'') = NaN"
  by (simp add: parseInt10_def trim_def is_space_def is_digit_def)

lemma show_42: "show_nat 42 = ''42''"
  by (simp add: show_nat.simps digit_char_def)

lemma scenario_storage:
  "uploadFileToStorage (scenario rs po st) (JObj kvs) ''pic.png'' n mt =
     (case object_entries (map_of kvs ''form'') of
        Inl e \<Rightarrow> ([], Inl e)
      | Inr entries \<Rightarrow>
          ([Fetch (upload_request (map_of kvs ''upload_url'') entries ''0123456789'' n mt)],
           (case st of
              Rejected m \<Rightarrow> Inl (RuntimeError m)
            | Response response \<Rightarrow>
                if ok response \<or> status response = 201 \<or> status response = 204 then Inr ()
                else Inl (UploadFailed (status response) (statusText response)
                       (text_body response)))))"
  by (simp add: uploadFileToStorage_def readFileSync_def scenario_def get_prop_def pure_io_def
      upload_request_def Let_def split: sum.splits fetch_outcome.splits)



lemma scenario_resolver_call:
  "Spawn ''gh'' [''api'', ''repos/o/r'', ''--jq'', ''.id'']
     \<in> set (fst (uploadImage (scenario rs po st) (upload_pic False)))"
  by (simp add: scenario_online fst_bind_io scenario_token scenario_resolver)

lemma parseRepository_error: "parseRepository s = Inl e \<Longrightarrow> e = InvalidReference s"
  by (auto simp: parseRepository_def Let_def split: option.splits if_splits)

lemma uploadImage_dry:
  assumes v: "validateUploadInput w (opt_filePath opts) (opt_repository opts) = Inr (fp, rp)"
    and d: "opt_dryMode opts"
    and f: "fs w fp = Some (RegularFile bytes)"
  shows "uploadImage w opts =
     ([], case parseRepository rp of
            Inl e \<Rightarrow> Inl (InvalidReference rp)
          | Inr parsed \<Rightarrow> Inr
              \<lparr>url = ''[DRY MODE] Would upload '' @ basename fp @ '' to ''
                       @ owner parsed @ ''/'' @ repo parsed,
               assetId = Some JNull,
               fileName = basename fp,
               fileSize = length bytes,
               mimeType = getMimeType fp,
               repository = owner parsed @ ''/'' @ repo parsed,
               dryMode = True\<rparr>)"
proof (cases "parseRepository rp")
  case (Inl e)
  then have "e = InvalidReference rp" by (rule parseRepository_error)
  with Inl v show ?thesis by (simp add: uploadImage_def)
next
  case (Inr parsed)
  with v d f show ?thesis
    by (simp add: uploadImage_def getFileSize_def Let_def return_io_def)
qed



text \<open>
  C2 as stated fails when the 2xx policy has no \<open>upload_url\<close>: the file is posted to the
  url \<open>undefined\<close>, and the run ends with the error of that \<open>fetch\<close>, not with
  \<open>PolicyRequestFailed\<close>.
\<close>

theorem C2_counterexample:
  "uploadImage
     (scenario resolved_42
        (policy_body [(''form'', JObj []), (''asset'', JObj [(''id'', JStr ''abc123'')])])
        (Rejected ''TypeError: Failed to parse URL from undefined''))
     (upload_pic False)
   = ([Spawn ''gh'' [''auth'', ''token''],
       Spawn ''gh'' [''api'', ''repos/o/r'', ''--jq'', ''.id''],
       Fetch (policy_request ''gho_token'' (Num 42) ''pic.png'' 10 ''image/png''),
       Fetch \<lparr>req_url = ''undefined'', req_method = ''POST'', req_headers = [],
              req_body = MultipartBody [FileField ''file'' ''0123456789'' ''image/png'' ''pic.png'']\<rparr>],
      Inl (RuntimeError ''TypeError: Failed to parse URL from undefined''))"
  by (simp add: scenario_online scenario_token scenario_resolver scenario_policy scenario_storage
      policy_body_def parse_42 get_prop_def asset_id_def pure_io_def return_io_def resolved_42_def
      object_entries_def respond_def ok_def template_string_def upload_request_def)

lemma scenario_policy_call:
  "Fetch (policy_request ''gho_token'' (Num 42) ''pic.png'' 10 ''image/png'')
     \<in> set (fst (uploadImage (scenario resolved_42 po st) (upload_pic False)))"
  by (simp add: scenario_online fst_bind_io scenario_token scenario_resolver resolved_42_def
      parse_42 fst_requestUploadPolicy)

text \<open>
  Policies without asset, with a \<open>null\<close> asset and with an empty asset that are accepted,
  and a policy request answered with 422.
\<close>

theorem C2_policy_response_witness:
  "(\<exists>r. snd (uploadImage
       (scenario resolved_42
          (policy_body [(''upload_url'', JStr ''https://store/x''), (''form'', JObj [(''k'', JStr ''v'')])])
          (respond 204 ''No Content'' None))
       (upload_pic False)) = Inr r \<and> assetId r = None \<and> \<not> dryMode r)
   \<and> (\<exists>r. snd (uploadImage
       (scenario resolved_42
          (policy_body [(''upload_url'', JStr ''https://store/x''), (''form'', JObj [(''k'', JStr ''v'')]),
                        (''asset'', JNull)])
          (respond 204 ''No Content'' None))
       (upload_pic False)) = Inr r \<and> assetId r = None \<and> \<not> dryMode r)
   \<and> (\<exists>r. snd (uploadImage
       (scenario resolved_42
          (policy_body [(''upload_url'', JStr ''https://store/x''), (''form'', JObj [(''k'', JStr ''v'')]),
                        (''asset'', JObj [])])
          (respond 204 ''No Content'' None))
       (upload_pic False)) = Inr r \<and> assetId r = None \<and> \<not> dryMode r)
   \<and> snd (uploadImage
       (scenario resolved_42 (respond 422 ''Unprocessable Entity'' None) (Rejected ''unexpected call''))
       (upload_pic False)) = Inl (PolicyRequestFailed 422 ''Unprocessable Entity'' [])"
proof -
  let ?v = "scenario resolved_42 (respond 422 ''Unprocessable Entity'' None) (Rejected ''unexpected call'')"
  let ?req = "policy_request ''gho_token'' (Num 42) ''pic.png'' 10 ''image/png''"
  let ?flds = "[(''name'', ''pic.png''), (''size'', ''10''), (''content_type'', ''image/png''),
      (''repository_id'', ''42'')]"
  have body: "req_body ?req = UrlEncodedBody ?flds"
    by (simp add: policy_request_def number_toString_def show_int_def show_nat.simps digit_char_def)
  have accepted: "\<exists>r. snd (uploadImage
       (scenario resolved_42
          (policy_body ([(''upload_url'', JStr ''https://store/x''),
                         (''form'', JObj [(''k'', JStr ''v'')])] @ asset))
          (respond 204 ''No Content'' None))
       (upload_pic False)) = Inr r \<and> assetId r = None \<and> \<not> dryMode r"
    if a: "asset_id (JObj ([(''upload_url'', JStr ''https://store/x''),
                         (''form'', JObj [(''k'', JStr ''v'')])] @ asset)) = Inr None"
    for asset
  proof -
    let ?kvs = "[(''upload_url'', JStr ''https://store/x''), (''form'', JObj [(''k'', JStr ''v'')])] @ asset"
    let ?w = "scenario resolved_42 (policy_body ?kvs) (respond 204 ''No Content'' None)"
    have w1: "Fetch ?req \<in> set (fst (uploadImage ?w (upload_pic False)))"
      by (rule scenario_policy_call)
    have w2: "net ?w ?req = Response \<lparr>status = 200, statusText = ''OK'', text_body = [],
        json_body = Some (JObj ?kvs)\<rparr>"
      by (simp add: scenario_def policy_request_def policy_body_def respond_def)
    have w3: "\<forall>parts. \<exists>resp'. net ?w \<lparr>req_url = ''https://store/x'', req_method = ''POST'',
        req_headers = [], req_body = MultipartBody parts\<rparr> = Response resp' \<and> ok resp'"
      by (simp add: scenario_def respond_def ok_def)
    have w4: "ok \<lparr>status = 200, statusText = ''OK'', text_body = [], json_body = Some (JObj ?kvs)\<rparr>"
      by (simp add: ok_def)
    have w5: "map_of ?kvs ''upload_url'' = Some (JStr ''https://store/x'')"
      "map_of ?kvs ''form'' = Some (JObj [(''k'', JStr ''v'')])"
      by simp_all
    show ?thesis
      using body w1 w2 w3 w4 w5 a
        C2_policy_response [of ?req ?w "upload_pic False" ?flds
          "\<lparr>status = 200, statusText = ''OK'', text_body = [], json_body = Some (JObj ?kvs)\<rparr>"
          ?kvs "''https://store/x''" "[(''k'', JStr ''v'')]"]
      by (simp del: append.simps map_of.simps)
  qed
  have a1: "asset_id (JObj ([(''upload_url'', JStr ''https://store/x''),
                         (''form'', JObj [(''k'', JStr ''v'')])] @ [])) = Inr None"
    by (simp add: asset_id_def get_prop_def)
  have a2: "asset_id (JObj ([(''upload_url'', JStr ''https://store/x''),
                         (''form'', JObj [(''k'', JStr ''v'')])] @ [(''asset'', JNull)])) = Inr None"
    by (simp add: asset_id_def get_prop_def)
  have a3: "asset_id (JObj ([(''upload_url'', JStr ''https://store/x''),
                         (''form'', JObj [(''k'', JStr ''v'')])] @ [(''asset'', JObj [])])) = Inr None"
    by (simp add: asset_id_def get_prop_def)
  have v1: "Fetch ?req \<in> set (fst (uploadImage ?v (upload_pic False)))"
    by (rule scenario_policy_call)
  have v2: "net ?v ?req = Response \<lparr>status = 422, statusText = ''Unprocessable Entity'',
      text_body = [], json_body = None\<rparr>"
    by (simp add: scenario_def policy_request_def respond_def)
  have rejected: "snd (uploadImage ?v (upload_pic False))
      = Inl (PolicyRequestFailed 422 ''Unprocessable Entity'' [])"
    using body v1 v2
      C2_policy_response [of ?req ?v "upload_pic False" ?flds
        "\<lparr>status = 422, statusText = ''Unprocessable Entity'', text_body = [], json_body = None\<rparr>"
        "[]" "[]" "[]"]
    by (simp add: ok_def)
  show ?thesis
    using accepted [OF a1] accepted [OF a2] accepted [OF a3] rejected
    by simp
qed

text \<open>
  C3 as stated fails on output that is no number: \<open>parseInt\<close> gives \<open>NaN\<close>, no error is
  raised, and the policy request goes out with \<open>repository_id=NaN\<close>.
\<close>

theorem C3_counterexample:
  "parseInt10 (trim ''not-a-number'') = NaN
   \<and> uploadImage
     (scenario (Closed (Some 0) ''not-a-number'' []) (respond 422 ''Unprocessable Entity'' None)
        (Rejected ''unexpected call''))
     (upload_pic False)
   = ([Spawn ''gh'' [''auth'', ''token''],
       Spawn ''gh'' [''api'', ''repos/o/r'', ''--jq'', ''.id''],
       Fetch \<lparr>req_url = ''https://github.com/upload/policies/assets'', req_method = ''POST'',
              req_headers = [(''Accept'', ''application/json''),
                (''Content-Type'', ''application/x-www-form-urlencoded''),
                (''Authorization'', ''token gho_token''),
                (''User-Agent'', ''gh-upload-image/0.1.0'')],
              req_body = UrlEncodedBody [(''name'', ''pic.png''), (''size'', ''10''),
                (''content_type'', ''image/png''), (''repository_id'', ''NaN'')]\<rparr>],
      Inl (PolicyRequestFailed 422 ''Unprocessable Entity'' []))"
  by (simp add: scenario_online scenario_token scenario_resolver scenario_policy
      parse_nan respond_def ok_def policy_request_def number_toString_def show_nat.simps
      digit_char_def)

text \<open>
  A resolver that cannot be spawned, one that exits with code 1, and one that prints 42.
\<close>

theorem C3_resolver_witness:
  "(\<exists>a b msg. snd (uploadImage
       (scenario (SpawnError ''spawn gh ENOENT'') (Rejected ''unexpected call'')
          (Rejected ''unexpected call'')) (upload_pic False))
      = Inl (RepositoryResolutionFailed a b msg))
   \<and> (\<exists>a b msg. snd (uploadImage
       (scenario (Closed (Some 1) [] ''gh: Not Found (HTTP 404)'') (Rejected ''unexpected call'')
          (Rejected ''unexpected call'')) (upload_pic False))
      = Inl (RepositoryResolutionFailed a b msg))
   \<and> (\<exists>req flds. Fetch req \<in> set (fst (uploadImage
       (scenario resolved_42 (respond 422 ''Unprocessable Entity'' None)
          (Rejected ''unexpected call'')) (upload_pic False)))
        \<and> req_url req = ''https://github.com/upload/policies/assets''
        \<and> req_body req = UrlEncodedBody flds
        \<and> map_of flds ''repository_id'' = Some ''42'')"
proof -
  let ?args = "[''repos/o/r'', ''--jq'', ''.id'']"
  let ?a = "scenario (SpawnError ''spawn gh ENOENT'') (Rejected ''unexpected call'')
          (Rejected ''unexpected call'')"
  let ?b = "scenario (Closed (Some 1) [] ''gh: Not Found (HTTP 404)'') (Rejected ''unexpected call'')
          (Rejected ''unexpected call'')"
  let ?c = "scenario resolved_42 (respond 422 ''Unprocessable Entity'' None)
          (Rejected ''unexpected call'')"
  have pa: "proc ?a ''gh'' (''api'' # ?args) = SpawnError ''spawn gh ENOENT''"
    by (simp add: scenario_def)
  have pb: "proc ?b ''gh'' (''api'' # ?args) = Closed (Some 1) [] ''gh: Not Found (HTTP 404)''"
    by (simp add: scenario_def)
  have pc: "proc ?c ''gh'' (''api'' # ?args) = Closed (Some 0) ''42\<newline>'' []"
    by (simp add: scenario_def resolved_42_def)
  have t: "trim ''42\<newline>'' = show_nat 42"
    by (simp add: trim_def is_space_def show_42)
  have n: "(42::nat) < 2 ^ 53" by simp
  have ne: "Some (1::int) \<noteq> Some 0" by simp
  have ca: "Spawn ''gh'' (''api'' # ?args) \<in> set (fst (uploadImage ?a (upload_pic False)))"
    by (rule scenario_resolver_call)
  have cb: "Spawn ''gh'' (''api'' # ?args) \<in> set (fst (uploadImage ?b (upload_pic False)))"
    by (rule scenario_resolver_call)
  have cc: "Spawn ''gh'' (''api'' # ?args) \<in> set (fst (uploadImage ?c (upload_pic False)))"
    by (rule scenario_resolver_call)
  have ra: "\<exists>a b msg. snd (uploadImage ?a (upload_pic False)) = Inl (RepositoryResolutionFailed a b msg)"
    using C3_resolver [of ?args ?a "upload_pic False"] ca pa by blast
  have rb: "\<exists>a b msg. snd (uploadImage ?b (upload_pic False)) = Inl (RepositoryResolutionFailed a b msg)"
    using C3_resolver [of ?args ?b "upload_pic False"] cb pb ne by blast
  have "\<exists>req flds. Fetch req \<in> set (fst (uploadImage ?c (upload_pic False)))
        \<and> req_url req = ''https://github.com/upload/policies/assets''
        \<and> req_body req = UrlEncodedBody flds
        \<and> map_of flds ''repository_id'' = Some (show_nat 42)"
    using C3_resolver [of ?args ?c "upload_pic False"] cc pc t n by blast
  then have rc: "\<exists>req flds. Fetch req \<in> set (fst (uploadImage ?c (upload_pic False)))
        \<and> req_url req = ''https://github.com/upload/policies/assets''
        \<and> req_body req = UrlEncodedBody flds
        \<and> map_of flds ''repository_id'' = Some ''42''"
    unfolding show_42 .
  from ra rb rc show ?thesis by blast
qed

subsection \<open>Validation and the dry run\<close>

text \<open>
  C4. Validation checks the file path, the repository, the existence of a regular file
  and the extension, in this order. When it fails, the run ends with its error and has made
  no call to a process or to the network; in particular a path that names nothing fails
  with \<open>FileNotFound\<close> before the credential provider is asked.
\<close>

theorem C4_validation_first:
  "validateUploadInput w a b =
     (if a = None \<or> a = Some [] then Inl (MissingArgument ''filePath is required in options'')
      else if b = None \<or> b = Some [] then Inl (MissingArgument ''repository is required in options'')
      else if \<not> (\<exists>bytes. fs w (the a) = Some (RegularFile bytes)) then Inl (FileNotFound (the a))
      else if toLowerCase (extname (the a)) \<notin> set ALLOWED_EXTENSIONS
      then Inl (UnsupportedExtension (toLowerCase (extname (the a))))
      else Inr (the a, the b))
   \<and> (validateUploadInput w (opt_filePath opts) (opt_repository opts) = Inl e
        \<longrightarrow> uploadImage w opts = ([], Inl e))
   \<and> (opt_filePath opts = Some fp \<and> fp \<noteq> [] \<and> opt_repository opts = Some rp \<and> rp \<noteq> []
        \<and> fs w fp = None
        \<longrightarrow> uploadImage w opts = ([], Inl (FileNotFound fp)))"
proof (intro conjI impI)
  show "validateUploadInput w a b =
     (if a = None \<or> a = Some [] then Inl (MissingArgument ''filePath is required in options'')
      else if b = None \<or> b = Some [] then Inl (MissingArgument ''repository is required in options'')
      else if \<not> (\<exists>bytes. fs w (the a) = Some (RegularFile bytes)) then Inl (FileNotFound (the a))
      else if toLowerCase (extname (the a)) \<notin> set ALLOWED_EXTENSIONS
      then Inl (UnsupportedExtension (toLowerCase (extname (the a))))
      else Inr (the a, the b))"
    by (cases a; cases b) (auto simp: validateUploadInput_def fileExists_iff isExtensionAllowed_def)
next
  assume "validateUploadInput w (opt_filePath opts) (opt_repository opts) = Inl e"
  then show "uploadImage w opts = ([], Inl e)"
    by (simp add: uploadImage_def)
next
  assume h: "opt_filePath opts = Some fp \<and> fp \<noteq> [] \<and> opt_repository opts = Some rp \<and> rp \<noteq> []
        \<and> fs w fp = None"
  then have "validateUploadInput w (opt_filePath opts) (opt_repository opts) = Inl (FileNotFound fp)"
    by (simp add: validateUploadInput_def fileExists_def)
  then show "uploadImage w opts = ([], Inl (FileNotFound fp))"
    by (simp add: uploadImage_def)
qed

text \<open>
  A missing file and a missing path, in a world where every call would fail.
\<close>

theorem C4_validation_first_witness:
  "uploadImage offline
     \<lparr>opt_filePath = Some ''missing.png'', opt_repository = Some ''o/r'',
      opt_verbose = False, opt_dryMode = False\<rparr> = ([], Inl (FileNotFound ''missing.png''))
   \<and> uploadImage offline
     \<lparr>opt_filePath = Some [], opt_repository = None,
      opt_verbose = False, opt_dryMode = False\<rparr>
     = ([], Inl (MissingArgument ''filePath is required in options''))
   \<and> uploadImage offline
     \<lparr>opt_filePath = Some ''docs'', opt_repository = Some ''o/r'',
      opt_verbose = False, opt_dryMode = False\<rparr> = ([], Inl (FileNotFound ''docs''))
   \<and> uploadImage offline
     \<lparr>opt_filePath = Some ''script.js'', opt_repository = Some ''o/r'',
      opt_verbose = False, opt_dryMode = False\<rparr> = ([], Inl (UnsupportedExtension ''.js''))"
proof -
  let ?none = "\<lparr>opt_filePath = Some [], opt_repository = None,
      opt_verbose = False, opt_dryMode = False\<rparr>"
  let ?missing = "\<lparr>opt_filePath = Some ''missing.png'', opt_repository = Some ''o/r'',
      opt_verbose = False, opt_dryMode = False\<rparr>"
  let ?docs = "\<lparr>opt_filePath = Some ''docs'', opt_repository = Some ''o/r'',
      opt_verbose = False, opt_dryMode = False\<rparr>"
  let ?script = "\<lparr>opt_filePath = Some ''script.js'', opt_repository = Some ''o/r'',
      opt_verbose = False, opt_dryMode = False\<rparr>"
  have ext: "toLowerCase (extname ''script.js'') = ''.js''"
    by (simp add: extname_def basename_def toLowerCase_def to_lower_char_def)
  have v1: "validateUploadInput offline (Some []) None
      = Inl (MissingArgument ''filePath is required in options'')"
    using C4_validation_first [of offline "Some []" None] by simp
  have v2: "validateUploadInput offline (Some ''docs'') (Some ''o/r'') = Inl (FileNotFound ''docs'')"
    using C4_validation_first [of offline "Some ''docs''" "Some ''o/r''"]
    by (simp add: offline_def scenario_def)
  have v3: "validateUploadInput offline (Some ''script.js'') (Some ''o/r'')
      = Inl (UnsupportedExtension ''.js'')"
    using C4_validation_first [of offline "Some ''script.js''" "Some ''o/r''"] ext
    by (simp add: offline_def scenario_def ALLOWED_EXTENSIONS_def)
  have m: "fs offline ''missing.png'' = None" by (simp add: offline_def scenario_def)
  have r1: "uploadImage offline ?none = ([], Inl (MissingArgument ''filePath is required in options''))"
    using v1 C4_validation_first [of offline None None ?none
        "MissingArgument ''filePath is required in options''"] by simp
  have r2: "uploadImage offline ?docs = ([], Inl (FileNotFound ''docs''))"
    using v2 C4_validation_first [of offline None None ?docs "FileNotFound ''docs''"] by simp
  have r3: "uploadImage offline ?script = ([], Inl (UnsupportedExtension ''.js''))"
    using v3 C4_validation_first [of offline None None ?script "UnsupportedExtension ''.js''"]
    by simp
  have r4: "uploadImage offline ?missing = ([], Inl (FileNotFound ''missing.png''))"
    using m C4_validation_first [of offline None None ?missing _ "''missing.png''" "''o/r''"]
    by simp
  from r1 r2 r3 r4 show ?thesis by blast
qed

text \<open>
  C5 (amended). A dry run makes no call to a process or to the network and never fails with
  an authentication, resolution, policy or upload error. When validation passes, it fails
  with \<open>InvalidReference\<close> if the repository reference does not parse, and otherwise
  returns the result with the placeholder url, a \<open>null\<close> asset id, the size of the file in
  bytes and its MIME type.
\<close>

theorem C5_dry_run:
  "opt_dryMode opts \<longrightarrow>
     fst (uploadImage w opts) = []
     \<and> (\<forall>e. snd (uploadImage w opts) = Inl e \<longrightarrow>
           (\<forall>m. e \<noteq> AuthenticationFailed m) \<and> (\<forall>x y m. e \<noteq> RepositoryResolutionFailed x y m)
           \<and> (\<forall>c t m. e \<noteq> PolicyRequestFailed c t m) \<and> (\<forall>c t m. e \<noteq> UploadFailed c t m))
     \<and> (\<forall>fp rp. validateUploadInput w (opt_filePath opts) (opt_repository opts) = Inr (fp, rp) \<longrightarrow>
           (\<exists>bytes. fs w fp = Some (RegularFile bytes)
              \<and> snd (uploadImage w opts) =
                 (case parseRepository rp of
                    Inl e \<Rightarrow> Inl (InvalidReference rp)
                  | Inr parsed \<Rightarrow> Inr
                      \<lparr>url = ''[DRY MODE] Would upload '' @ basename fp @ '' to ''
                               @ owner parsed @ ''/'' @ repo parsed,
                       assetId = Some JNull,
                       fileName = basename fp,
                       fileSize = length bytes,
                       mimeType = getMimeType fp,
                       repository = owner parsed @ ''/'' @ repo parsed,
                       dryMode = True\<rparr>)))"
proof
  assume d: "opt_dryMode opts"
  show "fst (uploadImage w opts) = []
     \<and> (\<forall>e. snd (uploadImage w opts) = Inl e \<longrightarrow>
           (\<forall>m. e \<noteq> AuthenticationFailed m) \<and> (\<forall>x y m. e \<noteq> RepositoryResolutionFailed x y m)
           \<and> (\<forall>c t m. e \<noteq> PolicyRequestFailed c t m) \<and> (\<forall>c t m. e \<noteq> UploadFailed c t m))
     \<and> (\<forall>fp rp. validateUploadInput w (opt_filePath opts) (opt_repository opts) = Inr (fp, rp) \<longrightarrow>
           (\<exists>bytes. fs w fp = Some (RegularFile bytes)
              \<and> snd (uploadImage w opts) =
                 (case parseRepository rp of
                    Inl e \<Rightarrow> Inl (InvalidReference rp)
                  | Inr parsed \<Rightarrow> Inr
                      \<lparr>url = ''[DRY MODE] Would upload '' @ basename fp @ '' to ''
                               @ owner parsed @ ''/'' @ repo parsed,
                       assetId = Some JNull,
                       fileName = basename fp,
                       fileSize = length bytes,
                       mimeType = getMimeType fp,
                       repository = owner parsed @ ''/'' @ repo parsed,
                       dryMode = True\<rparr>)))"
  proof (cases "validateUploadInput w (opt_filePath opts) (opt_repository opts)")
    case (Inl e)
    then have u: "uploadImage w opts = ([], Inl e)" by (simp add: uploadImage_def)
    have "(\<forall>m. e \<noteq> AuthenticationFailed m) \<and> (\<forall>x y m. e \<noteq> RepositoryResolutionFailed x y m)
           \<and> (\<forall>c t m. e \<noteq> PolicyRequestFailed c t m) \<and> (\<forall>c t m. e \<noteq> UploadFailed c t m)"
      using Inl by (auto simp: validateUploadInput_def split: option.splits if_splits)
    with u Inl show ?thesis by simp
  next
    case (Inr p)
    obtain fp rp where p: "p = (fp, rp)" by (cases p)
    from Inr p have v: "validateUploadInput w (opt_filePath opts) (opt_repository opts) = Inr (fp, rp)"
      by simp
    then obtain bytes where f: "fs w fp = Some (RegularFile bytes)"
      using validate_Inr fileExists_iff by blast
    note u = uploadImage_dry [OF v d f]
    show ?thesis
      using u v f by (auto split: sum.splits)
  qed
qed

text \<open>
  The dry-run scenario of the specification: a ten-byte \<open>.png\<close> file and \<open>o/r\<close>.
\<close>

theorem C5_dry_run_witness:
  "uploadImage offline
     \<lparr>opt_filePath = Some ''pic.png'', opt_repository = Some ''o/r'',
      opt_verbose = False, opt_dryMode = True\<rparr>
   = ([], Inr \<lparr>url = ''[DRY MODE] Would upload pic.png to o/r'', assetId = Some JNull,
               fileName = ''pic.png'', fileSize = 10, mimeType = ''image/png'',
               repository = ''o/r'', dryMode = True\<rparr>)"
proof -
  let ?opts = "\<lparr>opt_filePath = Some ''pic.png'', opt_repository = Some ''o/r'',
      opt_verbose = False, opt_dryMode = True\<rparr>"
  have v: "validateUploadInput offline (opt_filePath ?opts) (opt_repository ?opts)
      = Inr (''pic.png'', ''o/r'')"
    by (simp add: validateUploadInput_def fileExists_def offline_def scenario_def
        isExtensionAllowed_def extname_def basename_def toLowerCase_def to_lower_char_def
        ALLOWED_EXTENSIONS_def)
  have p: "parseRepository ''o/r'' = Inr \<lparr>owner = ''o'', repo = ''r''\<rparr>"
    by (simp add: parseRepository_def url_match_here_def)
  have m: "getMimeType ''pic.png'' = ''image/png''"
    by (simp add: getMimeType_def extname_def basename_def toLowerCase_def to_lower_char_def
        MIME_TYPES_def)
  have b: "basename ''pic.png'' = ''pic.png''" by (simp add: basename_def)
  have f: "fs offline ''pic.png'' = Some (RegularFile ''0123456789'')"
    by (simp add: offline_def scenario_def)
  have "fst (uploadImage offline ?opts) = []
      \<and> snd (uploadImage offline ?opts) = Inr \<lparr>url = ''[DRY MODE] Would upload pic.png to o/r'',
          assetId = Some JNull, fileName = ''pic.png'', fileSize = 10, mimeType = ''image/png'',
          repository = ''o/r'', dryMode = True\<rparr>"
    using C5_dry_run [of ?opts offline] v p m b f by simp
  then show ?thesis by (simp add: prod_eq_iff)
qed

text \<open>
  C5 as stated fails for a request that passes validation with a reference that does not
  parse: the dry run fails with \<open>InvalidReference\<close> instead of returning a result.
\<close>

theorem C5_counterexample:
  "validateUploadInput offline (Some ''pic.png'') (Some ''invalid'') = Inr (''pic.png'', ''invalid'')
   \<and> uploadImage offline
       \<lparr>opt_filePath = Some ''pic.png'', opt_repository = Some ''invalid'',
        opt_verbose = False, opt_dryMode = True\<rparr> = ([], Inl (InvalidReference ''invalid''))"
  by (simp add: uploadImage_def validateUploadInput_def fileExists_def offline_def scenario_def
      isExtensionAllowed_def extname_def basename_def toLowerCase_def to_lower_char_def
      ALLOWED_EXTENSIONS_def parseRepository_def url_match_here_def)

end
